theory Spec2Isabelle
  imports Complex_Main "HOL-Library.AList"
begin

section \<open>Exceptions\<close>

text \<open>
  A Python exception is a value: its class and its message. \<open>KeyError\<close> stands for
  \<open>KeyError\<close> and every subclass of it (an \<open>except KeyError\<close> clause catches them
  alike); \<open>OtherError c\<close> is an exception of any other class \<open>c\<close>. The message text of
  exceptions raised by numpy and by the interpreter itself is abbreviated. The
  \<open>__cause__\<close> link set by \<open>raise ... from e\<close> is not modelled.
\<close>

datatype exn_class =
    KeyError | ValueError | TypeError | AssertionError
  | SolverNotFound | ParamError | ProblemError | OtherError string

datatype exn = Exn (exn_class: exn_class) (exn_message: string)

section \<open>Arrays\<close>

text \<open>
  Floating-point entries are idealised as reals. A numpy array is one-dimensional
  (\<open>Arr1 v\<close>, shape \<open>(length v,)\<close>) or two-dimensional (\<open>Arr2 c rows\<close>, shape
  \<open>(length rows, c)\<close>: the number of columns is kept, since an array may have no row).
  A scipy sparse matrix \<open>Sparse c rows\<close> is given by its shape and its logical entries.
\<close>

datatype ndarray = Arr1 "real list" | Arr2 nat "real list list"

datatype matrix = Dense ndarray | Sparse nat "real list list"

fun wf_ndarray :: "ndarray \<Rightarrow> bool" where
  "wf_ndarray (Arr1 v) = True"
| "wf_ndarray (Arr2 c rows) = list_all (\<lambda>r. length r = c) rows"

fun wf_matrix :: "matrix \<Rightarrow> bool" where
  "wf_matrix (Dense a) = wf_ndarray a"
| "wf_matrix (Sparse c rows) = list_all (\<lambda>r. length r = c) rows"

text \<open>\<open>a.shape[0]\<close>\<close>

fun shape0 :: "ndarray \<Rightarrow> nat" where
  "shape0 (Arr1 v) = length v"
| "shape0 (Arr2 c rows) = length rows"

definition columns :: "nat \<Rightarrow> real list list \<Rightarrow> real list list" where
  "columns c rows = map (\<lambda>j. map (\<lambda>r. r ! j) rows) [0..<c]"

text \<open>\<open>a.transpose()\<close>: a one-dimensional array is its own transpose.\<close>

fun np_transpose :: "ndarray \<Rightarrow> ndarray" where
  "np_transpose (Arr1 v) = Arr1 v"
| "np_transpose (Arr2 c rows) = Arr2 (length rows) (columns c rows)"

text \<open>
  numpy's broadcasting of two axes: equal extents, or one of them is 1 and is
  stretched. \<open>bidx d i\<close> is the index read on an axis of extent \<open>d\<close>.
\<close>

definition broadcast_dim :: "nat \<Rightarrow> nat \<Rightarrow> nat option" where
  "broadcast_dim a b =
     (if a = b then Some a else if a = 1 then Some b else if b = 1 then Some a else None)"

definition bidx :: "nat \<Rightarrow> nat \<Rightarrow> nat" where
  "bidx d i = (if d = 1 then 0 else i)"

definition add_rows ::
  "nat \<Rightarrow> real list list \<Rightarrow> nat \<Rightarrow> real list list \<Rightarrow> exn + nat \<times> real list list" where
  "add_rows c1 r1 c2 r2 =
     (case (broadcast_dim (length r1) (length r2), broadcast_dim c1 c2) of
        (Some r, Some c) \<Rightarrow>
          Inr (c, map (\<lambda>i. map (\<lambda>j. r1 ! bidx (length r1) i ! bidx c1 j
                                    + r2 ! bidx (length r2) i ! bidx c2 j) [0..<c]) [0..<r])
      | _ \<Rightarrow> Inl (Exn ValueError ''operands could not be broadcast together''))"

text \<open>\<open>a + b\<close> on arrays; a one-dimensional operand beside a two-dimensional one is a row.\<close>

fun np_add :: "ndarray \<Rightarrow> ndarray \<Rightarrow> exn + ndarray" where
  "np_add (Arr1 u) (Arr1 v) =
     (case add_rows (length u) [u] (length v) [v] of
        Inl e \<Rightarrow> Inl e | Inr (c, rs) \<Rightarrow> Inr (Arr1 (concat rs)))"
| "np_add (Arr1 u) (Arr2 c2 r2) =
     (case add_rows (length u) [u] c2 r2 of
        Inl e \<Rightarrow> Inl e | Inr (c, rs) \<Rightarrow> Inr (Arr2 c rs))"
| "np_add (Arr2 c1 r1) (Arr1 v) =
     (case add_rows c1 r1 (length v) [v] of
        Inl e \<Rightarrow> Inl e | Inr (c, rs) \<Rightarrow> Inr (Arr2 c rs))"
| "np_add (Arr2 c1 r1) (Arr2 c2 r2) =
     (case add_rows c1 r1 c2 r2 of
        Inl e \<Rightarrow> Inl e | Inr (c, rs) \<Rightarrow> Inr (Arr2 c rs))"

text \<open>\<open>k * a\<close> for a scalar \<open>k\<close>, and \<open>-a\<close>.\<close>

fun np_scale :: "real \<Rightarrow> ndarray \<Rightarrow> ndarray" where
  "np_scale k (Arr1 v) = Arr1 (map (\<lambda>x. k * x) v)"
| "np_scale k (Arr2 c rows) = Arr2 c (map (map (\<lambda>x. k * x)) rows)"

fun np_neg :: "ndarray \<Rightarrow> ndarray" where
  "np_neg (Arr1 v) = Arr1 (map uminus v)"
| "np_neg (Arr2 c rows) = Arr2 c (map (map uminus) rows)"

section \<open>Symmetrization\<close>

text \<open>
  \<open>0.5 * (P + P.transpose())\<close>, line 118 of \<open>solve_qp.py\<close>. On a dense array the sum
  broadcasts; on a sparse matrix the two shapes must agree.
\<close>

fun symmetric_part :: "matrix \<Rightarrow> exn + matrix" where
  "symmetric_part (Dense a) =
     (case np_add a (np_transpose a) of
        Inl e \<Rightarrow> Inl e
      | Inr s \<Rightarrow> Inr (Dense (np_scale (1/2) s)))"
| "symmetric_part (Sparse c rows) =
     (if length rows = c
      then Inr (Sparse c (map (map (\<lambda>x. 1/2 * x))
                  (map2 (map2 (+)) rows (columns c rows))))
      else Inl (Exn ValueError ''inconsistent shapes''))"

text \<open>A square matrix: two-dimensional, \<open>c\<close> rows of \<open>c\<close> entries each.\<close>

fun square_matrix :: "matrix \<Rightarrow> bool" where
  "square_matrix (Dense (Arr1 v)) = False"
| "square_matrix (Dense (Arr2 c rows)) = (length rows = c \<and> list_all (\<lambda>r. length r = c) rows)"
| "square_matrix (Sparse c rows) = (length rows = c \<and> list_all (\<lambda>r. length r = c) rows)"

definition sym_entries :: "nat \<Rightarrow> real list list \<Rightarrow> real list list" where
  "sym_entries c rows =
     map (\<lambda>i. map (\<lambda>j. 1/2 * (rows ! i ! j + rows ! j ! i)) [0..<c]) [0..<c]"

text \<open>
  Python slices \<open>xs[:k]\<close> and \<open>xs[k:]\<close>: a negative bound counts from the end, and
  every bound is clamped to the list. Since \<open>-0 = 0\<close>, \<open>xs[:-0]\<close> is \<open>xs[:0]\<close>.
\<close>

definition slice_index :: "nat \<Rightarrow> int \<Rightarrow> nat" where
  "slice_index len k = (if k < 0 then nat (max 0 (int len + k)) else min (nat k) len)"

definition slice_to :: "int \<Rightarrow> 'a list \<Rightarrow> 'a list" where
  "slice_to k xs = take (slice_index (length xs) k) xs"

definition slice_from :: "int \<Rightarrow> 'a list \<Rightarrow> 'a list" where
  "slice_from k xs = drop (slice_index (length xs) k) xs"

text \<open>\<open>eye(m)\<close>, \<open>zeros((m, n))\<close>, \<open>zeros(m)\<close>, \<open>ones(m)\<close>.\<close>

definition eye :: "nat \<Rightarrow> ndarray" where
  "eye m = Arr2 m (map (\<lambda>i. map (\<lambda>j. if i = j then 1 else 0) [0..<m]) [0..<m])"

definition zeros2 :: "nat \<Rightarrow> nat \<Rightarrow> ndarray" where
  "zeros2 m n = Arr2 n (replicate m (replicate n 0))"

definition zeros1 :: "nat \<Rightarrow> ndarray" where
  "zeros1 m = Arr1 (replicate m 0)"

definition ones1 :: "nat \<Rightarrow> ndarray" where
  "ones1 m = Arr1 (replicate m 1)"

text \<open>
  \<open>hstack([a, b])\<close> concatenates one-dimensional arrays end to end and two-dimensional
  ones along the columns; \<open>vstack([a, b])\<close> reads a one-dimensional array as a row and
  concatenates along the rows. Both raise \<open>ValueError\<close> on arrays that do not fit.
\<close>

fun hstack :: "ndarray \<Rightarrow> ndarray \<Rightarrow> exn + ndarray" where
  "hstack (Arr1 u) (Arr1 v) = Inr (Arr1 (u @ v))"
| "hstack (Arr2 c1 r1) (Arr2 c2 r2) =
     (if length r1 = length r2 then Inr (Arr2 (c1 + c2) (map2 (@) r1 r2))
      else Inl (Exn ValueError ''all the input array dimensions except for the concatenation axis must match exactly''))"
| "hstack (Arr1 u) (Arr2 c2 r2) =
     Inl (Exn ValueError ''all the input arrays must have same number of dimensions'')"
| "hstack (Arr2 c1 r1) (Arr1 v) =
     Inl (Exn ValueError ''all the input arrays must have same number of dimensions'')"

fun atleast_2d :: "ndarray \<Rightarrow> nat \<times> real list list" where
  "atleast_2d (Arr1 v) = (length v, [v])"
| "atleast_2d (Arr2 c rows) = (c, rows)"

definition vstack :: "ndarray \<Rightarrow> ndarray \<Rightarrow> exn + ndarray" where
  "vstack a b =
     (case (atleast_2d a, atleast_2d b) of
        ((c1, r1), (c2, r2)) \<Rightarrow>
          if c1 = c2 then Inr (Arr2 c1 (r1 @ r2))
          else Inl (Exn ValueError ''all the input array dimensions except for the concatenation axis must match exactly''))"

section \<open>Problems, solutions and Python values\<close>

text \<open>
  The \<open>Problem\<close> and \<open>Solution\<close> classes are not among the sources. A problem is the
  tuple that \<open>problem.unpack()\<close> returns; a solution is its attributes, \<open>None\<close> while
  unset. How the two are constructed is a parameter of the model (see \<open>piqp_env\<close>).
\<close>

record problem =
  prob_P :: matrix
  prob_q :: ndarray
  prob_G :: "matrix option"
  prob_h :: "ndarray option"
  prob_A :: "matrix option"
  prob_b :: "ndarray option"
  prob_lb :: "ndarray option"
  prob_ub :: "ndarray option"

datatype pyval =
    PyNone | PyBool bool | PyInt int | PyFloat real | PyStr string
  | PyArray ndarray | PyProblem problem

text \<open>A keyword dictionary, in insertion order; \<open>d[k] = v\<close> is \<open>AList.update k v d\<close>.\<close>

type_synonym kwargs = "(string \<times> pyval) list"

definition opt_array :: "ndarray option \<Rightarrow> pyval" where
  "opt_array a = (case a of None \<Rightarrow> PyNone | Some v \<Rightarrow> PyArray v)"

definition opt_str :: "string option \<Rightarrow> pyval" where
  "opt_str a = (case a of None \<Rightarrow> PyNone | Some v \<Rightarrow> PyStr v)"

text \<open>
  The text of a value inside an f-string. The text of a number, an array or a
  problem is not modelled.
\<close>

fun py_str :: "pyval \<Rightarrow> string" where
  "py_str PyNone = ''None''"
| "py_str (PyBool b) = (if b then ''True'' else ''False'')"
| "py_str (PyStr s) = s"
| "py_str v = ''...''"

record solution =
  sol_problem :: "problem option"
  sol_extras :: "(string \<times> string) list"
  sol_found :: "bool option"
  sol_x :: "real list option"
  sol_y :: "real list option"
  sol_z :: "real list option"
  sol_z_box :: "real list option"

section \<open>The dispatcher: \<open>solve_qp\<close>\<close>

text \<open>
  An adapter is called as \<open>f(P, q, G, h, A, b, **kwargs)\<close>. It runs a backend: it
  reads and changes a world \<open>'w\<close> that this layer never looks into, and it returns a
  vector, returns \<open>None\<close>, or raises.
\<close>

type_synonym 'w adapter =
  "matrix \<Rightarrow> ndarray \<Rightarrow> matrix option \<Rightarrow> ndarray option \<Rightarrow> matrix option \<Rightarrow> ndarray option
   \<Rightarrow> kwargs \<Rightarrow> 'w \<Rightarrow> (exn + real list option) \<times> 'w"

text \<open>
  What \<open>solve_qp.py\<close> imports from modules that are not among the sources:
  the two helpers \<open>check_problem_constraints\<close> (returns, or raises) and
  \<open>concatenate_bounds\<close> (returns the pair \<open>(G, h)\<close>, or raises), the registry
  \<open>solve_function\<close> and the list \<open>dense_solvers\<close>. They are parameters.
\<close>

record 'w env =
  check_problem_constraints ::
    "matrix option \<Rightarrow> ndarray option \<Rightarrow> matrix option \<Rightarrow> ndarray option \<Rightarrow> exn option"
  concatenate_bounds ::
    "matrix option \<Rightarrow> ndarray option \<Rightarrow> ndarray option \<Rightarrow> ndarray option
     \<Rightarrow> exn + matrix option \<times> ndarray option"
  solve_function :: "string \<Rightarrow> 'w adapter option"
  dense_solvers :: "string list"

text \<open>Lines 119-122: a one-dimensional \<open>ndarray\<close> becomes a single row.\<close>

fun promote_row :: "matrix option \<Rightarrow> matrix option" where
  "promote_row (Some (Dense (Arr1 v))) = Some (Dense (Arr2 (length v) [v]))"
| "promote_row M = M"

text \<open>\<open>d[k]\<close> on a dictionary raises \<open>KeyError\<close> on a missing key.\<close>

definition dict_getitem :: "(string \<Rightarrow> 'a option) \<Rightarrow> string \<Rightarrow> exn + 'a" where
  "dict_getitem d k = (case d k of None \<Rightarrow> Inl (Exn KeyError k) | Some v \<Rightarrow> Inr v)"

text \<open>Line 128, the body of the \<open>try\<close>: the lookup and the call of what it finds.\<close>

definition solver_call ::
  "'w env \<Rightarrow> string \<Rightarrow> 'w adapter" where
  "solver_call env solver P q G h A b kw w =
     (case dict_getitem (solve_function env) solver of
        Inl e \<Rightarrow> (Inl e, w)
      | Inr f \<Rightarrow> f P q G h A b kw w)"

definition not_available :: "string \<Rightarrow> exn" where
  "not_available solver =
     Exn SolverNotFound (''solver '' @ [CHR 0x27] @ solver @ [CHR 0x27] @ '' is not available'')"

text \<open>Lines 125-126: \<open>kwargs["initvals"] = initvals\<close>, then \<open>kwargs["verbose"] = verbose\<close>.\<close>

definition adapter_kwargs :: "kwargs \<Rightarrow> ndarray option \<Rightarrow> bool \<Rightarrow> kwargs" where
  "adapter_kwargs kwargs initvals verbose =
     AList.update ''verbose'' (PyBool verbose)
       (AList.update ''initvals'' (opt_array initvals) kwargs)"

definition solve_qp ::
  "'w env \<Rightarrow> matrix \<Rightarrow> ndarray \<Rightarrow> matrix option \<Rightarrow> ndarray option \<Rightarrow> matrix option \<Rightarrow> ndarray option
   \<Rightarrow> ndarray option \<Rightarrow> ndarray option \<Rightarrow> string \<Rightarrow> ndarray option \<Rightarrow> bool \<Rightarrow> bool \<Rightarrow> kwargs
   \<Rightarrow> 'w \<Rightarrow> (exn + real list option) \<times> 'w" where
  "solve_qp env P q G h A b lb ub solver initvals sym_proj verbose kwargs w =
     (case (if sym_proj then symmetric_part P else Inr P) of
        Inl e \<Rightarrow> (Inl e, w)
      | Inr P1 \<Rightarrow>
          let A1 = promote_row A; G1 = promote_row G in
          (case check_problem_constraints env G1 h A1 b of
             Some e \<Rightarrow> (Inl e, w)
           | None \<Rightarrow>
               (case concatenate_bounds env G1 h lb ub of
                  Inl e \<Rightarrow> (Inl e, w)
                | Inr (G2, h2) \<Rightarrow>
                    let kw = adapter_kwargs kwargs initvals verbose in
                    (case solver_call env solver P1 q G2 h2 A1 b kw w of
                       (Inl e, w') \<Rightarrow>
                         if exn_class e = KeyError then (Inl (not_available solver), w')
                         else (Inl e, w')
                     | (Inr x, w') \<Rightarrow> (Inr x, w')))))"

section \<open>The safer QP: \<open>solve_safer_qp\<close>\<close>

text \<open>
  Lines 209-216: the six arrays of the augmented problem, or the \<open>ValueError\<close> of the
  first \<open>hstack\<close> or \<open>vstack\<close> that does not fit. \<open>-sw * ones(m)\<close> is \<open>(-sw) * ones(m)\<close>.
\<close>

definition safer_qp_problem ::
  "ndarray \<Rightarrow> ndarray \<Rightarrow> ndarray \<Rightarrow> ndarray \<Rightarrow> real \<Rightarrow> real
   \<Rightarrow> exn + ndarray \<times> ndarray \<times> ndarray \<times> ndarray \<times> ndarray \<times> ndarray" where
  "safer_qp_problem P q G h sw reg =
     (let n = shape0 P; m = shape0 G; E = eye m; Z = zeros2 m n in
      case hstack P (np_transpose Z) of Inl e \<Rightarrow> Inl e | Inr upper \<Rightarrow>
      (case hstack Z (np_scale reg (eye m)) of Inl e \<Rightarrow> Inl e | Inr lower \<Rightarrow>
      (case vstack upper lower of Inl e \<Rightarrow> Inl e | Inr P2 \<Rightarrow>
      (case hstack q (np_scale (- sw) (ones1 m)) of Inl e \<Rightarrow> Inl e | Inr q2 \<Rightarrow>
      (case hstack Z E of Inl e \<Rightarrow> Inl e | Inr G2 \<Rightarrow>
      (let h2 = zeros1 m in
      (case hstack G (np_neg E) of Inl e \<Rightarrow> Inl e | Inr A2 \<Rightarrow>
       Inr (P2, q2, G2, h2, A2, h))))))))"

definition solve_safer_qp ::
  "'w env \<Rightarrow> ndarray \<Rightarrow> ndarray \<Rightarrow> ndarray \<Rightarrow> ndarray \<Rightarrow> real \<Rightarrow> real \<Rightarrow> string
   \<Rightarrow> ndarray option \<Rightarrow> bool \<Rightarrow> 'w \<Rightarrow> (exn + real list option) \<times> 'w" where
  "solve_safer_qp env P q G h sw reg solver initvals sym_proj w =
     (if solver \<notin> set (dense_solvers env)
      then (Inl (Exn AssertionError ''only available for dense solvers, for now''), w)
      else
        (case safer_qp_problem P q G h sw reg of
           Inl e \<Rightarrow> (Inl e, w)
         | Inr (P2, q2, G2, h2, A2, b2) \<Rightarrow>
             (case solve_qp env (Dense P2) q2 (Some (Dense G2)) (Some h2) (Some (Dense A2))
                     (Some b2) None None solver initvals sym_proj False [] w of
                (Inl e, w') \<Rightarrow> (Inl e, w')
              | (Inr None, w') \<Rightarrow> (Inr None, w')
              | (Inr (Some x), w') \<Rightarrow> (Inr (Some (slice_to (int (shape0 P)) x)), w'))))"

section \<open>The PIQP adapter\<close>

datatype piqp_solver = DenseSolver | SparseSolver

text \<open>
  The truth value of \<open>v == s\<close> for a str \<open>s\<close>, as the condition of an \<open>if\<close>. A str
  equals a str by its text; \<open>None\<close>, a number and an object of another class are
  unequal to a str. For a numpy array the comparison is elementwise and gives an
  array of \<open>False\<close> of the same shape, whose truth value is \<open>False\<close> when it has one
  element and a \<open>ValueError\<close> otherwise (numpy 2.2; earlier versions read an empty
  array as false).
\<close>

fun array_size :: "ndarray \<Rightarrow> nat" where
  "array_size (Arr1 v) = length v"
| "array_size (Arr2 c rows) = length rows * c"

fun eq_str_truth :: "pyval \<Rightarrow> string \<Rightarrow> exn + bool" where
  "eq_str_truth (PyStr t) s = Inr (t = s)"
| "eq_str_truth (PyArray a) s =
     (if array_size a = 1 then Inr False
      else Inl (Exn ValueError ''The truth value of an array is ambiguous''))"
| "eq_str_truth v s = Inr False"

text \<open>\<open>__select_backend\<close>, lines 59-65.\<close>

definition select_backend :: "pyval \<Rightarrow> bool \<Rightarrow> exn + piqp_solver" where
  "select_backend backend use_csc =
     (if backend = PyNone then Inr (if use_csc then SparseSolver else DenseSolver)
      else
        (case eq_str_truth backend ''dense'' of
           Inl e \<Rightarrow> Inl e
         | Inr True \<Rightarrow> Inr DenseSolver
         | Inr False \<Rightarrow>
             (case eq_str_truth backend ''sparse'' of
                Inl e \<Rightarrow> Inl e
              | Inr True \<Rightarrow> Inr SparseSolver
              | Inr False \<Rightarrow>
                  Inl (Exn ParamError
                         (''Unknown PIQP backend '' @ [CHR 0x22] @ py_str backend)))))"

record piqp_result =
  res_x :: "real list"
  res_y :: "real list"
  res_z :: "real list"
  res_info :: string

text \<open>
  What \<open>piqp_.py\<close> imports: the constructors of \<open>Problem\<close> and \<open>Solution\<close> and the
  helper \<open>ensure_sparse_matrices\<close> of this repository, none of them among the sources,
  and the \<open>piqp\<close> library: \<open>solver.setup(P, q, A, b, G, h, lb, ub, verbose=..., **kwargs)\<close>
  (the eight arrays are passed as a problem record), \<open>solver.solve()\<close>,
  \<open>solver.result\<close> and the constant \<open>PIQP_SOLVED\<close>. The solver object lives in the
  world \<open>'w\<close>.
\<close>

record 'w piqp_env =
  Problem ::
    "matrix \<Rightarrow> ndarray \<Rightarrow> matrix option \<Rightarrow> ndarray option \<Rightarrow> matrix option \<Rightarrow> ndarray option
     \<Rightarrow> ndarray option \<Rightarrow> ndarray option \<Rightarrow> exn + problem"
  Solution :: "problem \<Rightarrow> solution"
  ensure_sparse_matrices ::
    "matrix \<Rightarrow> matrix option \<Rightarrow> matrix option \<Rightarrow> exn + matrix \<times> matrix option \<times> matrix option"
  solver_setup :: "piqp_solver \<Rightarrow> problem \<Rightarrow> pyval \<Rightarrow> kwargs \<Rightarrow> 'w \<Rightarrow> exn option \<times> 'w"
  solver_solve :: "piqp_solver \<Rightarrow> 'w \<Rightarrow> (exn + int) \<times> 'w"
  solver_result :: "piqp_solver \<Rightarrow> 'w \<Rightarrow> piqp_result"
  PIQP_SOLVED :: int

text \<open>\<open>M is not None and not isinstance(M, np.ndarray)\<close>\<close>

fun is_ndarray :: "matrix \<Rightarrow> bool" where
  "is_ndarray (Dense a) = True"
| "is_ndarray (Sparse c rows) = False"

definition given_not_ndarray :: "matrix option \<Rightarrow> bool" where
  "given_not_ndarray M = (case M of None \<Rightarrow> False | Some m \<Rightarrow> \<not> is_ndarray m)"

definition use_csc :: "problem \<Rightarrow> bool" where
  "use_csc p = (\<not> is_ndarray (prob_P p) \<or> given_not_ndarray (prob_G p)
                \<or> given_not_ndarray (prob_A p))"

text \<open>Lines 178-188: the solution built from the backend's result.\<close>

definition piqp_solution ::
  "solution \<Rightarrow> problem \<Rightarrow> int \<Rightarrow> int \<Rightarrow> piqp_result \<Rightarrow> solution" where
  "piqp_solution s0 p status success_status r =
     (let n = shape0 (prob_q p);
          s1 = s0\<lparr>sol_extras := [(''info'', res_info r)],
                  sol_found := Some (status = success_status),
                  sol_x := Some (res_x r),
                  sol_y := Some (res_y r)\<rparr>
      in if prob_lb p \<noteq> None \<or> prob_ub p \<noteq> None
         then s1\<lparr>sol_z := Some (slice_to (- int n) (res_z r)),
                 sol_z_box := Some (slice_from (- int n) (res_z r))\<rparr>
         else s1\<lparr>sol_z := Some (res_z r)\<rparr>)"

text \<open>The body of \<open>piqp_solve_problem\<close>, lines 163-188, once its arguments are bound.\<close>

definition piqp_solve_problem ::
  "'w piqp_env \<Rightarrow> problem \<Rightarrow> pyval \<Rightarrow> pyval \<Rightarrow> kwargs \<Rightarrow> 'w \<Rightarrow> (exn + solution) \<times> 'w" where
  "piqp_solve_problem env p verbose backend kwargs w =
     (case (if use_csc p
            then ensure_sparse_matrices env (prob_P p) (prob_G p) (prob_A p)
            else Inr (prob_P p, prob_G p, prob_A p)) of
        Inl e \<Rightarrow> (Inl e, w)
      | Inr (P1, G1, A1) \<Rightarrow>
          (case select_backend backend (use_csc p) of
             Inl e \<Rightarrow> (Inl e, w)
           | Inr solver \<Rightarrow>
               (case solver_setup env solver (p\<lparr>prob_P := P1, prob_G := G1, prob_A := A1\<rparr>)
                       verbose kwargs w of
                  (Some e, w1) \<Rightarrow> (Inl e, w1)
                | (None, w1) \<Rightarrow>
                    (case solver_solve env solver w1 of
                       (Inl e, w2) \<Rightarrow> (Inl e, w2)
                     | (Inr status, w2) \<Rightarrow>
                         (Inr (piqp_solution (Solution env p) p status (PIQP_SOLVED env)
                                 (solver_result env solver w2)), w2)))))"

text \<open>
  How Python binds the arguments of a call to the parameters of a function that has
  positional-or-keyword parameters \<open>params\<close> and a \<open>**kwargs\<close>: a keyword that names a
  parameter already given by position, and more positional arguments than parameters,
  are each a \<open>TypeError\<close>, raised before the body runs. The result is the bound
  parameters and the keywords left for \<open>**kwargs\<close>.
\<close>

definition bind_arguments ::
  "string list \<Rightarrow> pyval list \<Rightarrow> kwargs \<Rightarrow> exn + kwargs \<times> kwargs" where
  "bind_arguments params args kws =
     (if list_ex (\<lambda>kv. fst kv \<in> set (take (length args) params)) kws
      then Inl (Exn TypeError ''got multiple values for argument'')
      else if length params < length args
      then Inl (Exn TypeError ''takes fewer positional arguments than were given'')
      else Inr (zip params args @ filter (\<lambda>kv. fst kv \<in> set params) kws,
                filter (\<lambda>kv. fst kv \<notin> set params) kws))"

definition param_default :: "kwargs \<Rightarrow> string \<Rightarrow> pyval \<Rightarrow> pyval" where
  "param_default bound k d = (case map_of bound k of None \<Rightarrow> d | Some v \<Rightarrow> v)"

text \<open>
  A call \<open>piqp_solve_problem(*args, **kws)\<close> of the function declared at lines 68-73:
  \<open>def piqp_solve_problem(problem, verbose=False, backend=None, **kwargs)\<close>.
\<close>

definition call_piqp_solve_problem ::
  "'w piqp_env \<Rightarrow> pyval list \<Rightarrow> kwargs \<Rightarrow> 'w \<Rightarrow> (exn + solution) \<times> 'w" where
  "call_piqp_solve_problem env args kws w =
     (case bind_arguments [''problem'', ''verbose'', ''backend''] args kws of
        Inl e \<Rightarrow> (Inl e, w)
      | Inr (bound, extra) \<Rightarrow>
          (case map_of bound ''problem'' of
             None \<Rightarrow> (Inl (Exn TypeError ''missing 1 required positional argument''), w)
           | Some (PyProblem p) \<Rightarrow>
               piqp_solve_problem env p (param_default bound ''verbose'' (PyBool False))
                 (param_default bound ''backend'' PyNone) extra w
           | Some v \<Rightarrow> (Inl (Exn (OtherError ''AttributeError'') ''unpack''), w)))"

text \<open>\<open>piqp_solve_qp\<close>, lines 254-258.\<close>

definition piqp_solve_qp ::
  "'w piqp_env \<Rightarrow> matrix \<Rightarrow> ndarray \<Rightarrow> matrix option \<Rightarrow> ndarray option \<Rightarrow> matrix option
   \<Rightarrow> ndarray option \<Rightarrow> ndarray option \<Rightarrow> ndarray option \<Rightarrow> ndarray option \<Rightarrow> bool
   \<Rightarrow> string option \<Rightarrow> kwargs \<Rightarrow> 'w \<Rightarrow> (exn + real list option) \<times> 'w" where
  "piqp_solve_qp env P q G h A b lb ub initvals verbose backend kwargs w =
     (case Problem env P q G h A b lb ub of
        Inl e \<Rightarrow> (Inl e, w)
      | Inr p \<Rightarrow>
          (case call_piqp_solve_problem env
                  [PyProblem p, opt_array initvals, PyBool verbose, opt_str backend] kwargs w of
             (Inl e, w') \<Rightarrow> (Inl e, w')
           | (Inr s, w') \<Rightarrow> (Inr (if sol_found s = Some True then sol_x s else None), w')))"

section \<open>The quadratic program that a tuple of arrays stands for\<close>

text \<open>
  The docstring of \<open>solve_qp\<close> (lines 51-62): minimize \<open>1/2 x\<^sup>T P x + q\<^sup>T x\<close> subject to
  \<open>G x \<le> h\<close> and \<open>A x = b\<close>. These are the cost of a point and what it is for a point
  to satisfy the two constraint systems.
\<close>

fun is_matrix :: "nat \<Rightarrow> nat \<Rightarrow> ndarray \<Rightarrow> bool" where
  "is_matrix r c (Arr1 v) = False"
| "is_matrix r c (Arr2 c' rows) =
     (c' = c \<and> length rows = r \<and> list_all (\<lambda>x. length x = c) rows)"

fun is_vector :: "nat \<Rightarrow> ndarray \<Rightarrow> bool" where
  "is_vector n (Arr1 v) = (length v = n)"
| "is_vector n (Arr2 c rows) = False"

text \<open>\<open>a.shape[1]\<close>, which a one-dimensional array does not have.\<close>

fun shape1 :: "ndarray \<Rightarrow> nat option" where
  "shape1 (Arr1 v) = None"
| "shape1 (Arr2 c rows) = Some c"

fun rows_of :: "ndarray \<Rightarrow> real list list" where
  "rows_of (Arr1 v) = [v]"
| "rows_of (Arr2 c rows) = rows"

fun vec_of :: "ndarray \<Rightarrow> real list" where
  "vec_of (Arr1 v) = v"
| "vec_of (Arr2 c rows) = concat rows"

definition dot :: "real list \<Rightarrow> real list \<Rightarrow> real" where
  "dot u v = sum_list (map2 (*) u v)"

definition mat_vec :: "real list list \<Rightarrow> real list \<Rightarrow> real list" where
  "mat_vec rows x = map (\<lambda>r. dot r x) rows"

definition quad_cost :: "ndarray \<Rightarrow> ndarray \<Rightarrow> real list \<Rightarrow> real" where
  "quad_cost P q z = 1/2 * dot z (mat_vec (rows_of P) z) + dot (vec_of q) z"

definition satisfies_ineq :: "ndarray \<Rightarrow> ndarray \<Rightarrow> real list \<Rightarrow> bool" where
  "satisfies_ineq G h z = list_all2 (\<le>) (mat_vec (rows_of G) z) (vec_of h)"

definition satisfies_eq :: "ndarray \<Rightarrow> ndarray \<Rightarrow> real list \<Rightarrow> bool" where
  "satisfies_eq A b z = (mat_vec (rows_of A) z = vec_of b)"

text \<open>Row \<open>i\<close> of \<open>k\<close> times the identity of size \<open>m\<close>.\<close>

definition unit_row :: "real \<Rightarrow> nat \<Rightarrow> nat \<Rightarrow> real list" where
  "unit_row k m i = map (\<lambda>j. if i = j then k else 0) [0..<m]"

section \<open>Instances of the parameters\<close>

text \<open>
  Modelled from the spec: \<open>check_problem_constraints\<close> is not among the sources. The
  spec (4.2, consistency check): it "validates G/h and A/b co-presence and dimension
  agreement; fails fast with ValueError/ProblemError".
\<close>

fun matrix_rows :: "matrix \<Rightarrow> nat" where
  "matrix_rows (Dense a) = shape0 a"
| "matrix_rows (Sparse c rows) = length rows"

definition rows_disagree :: "matrix option \<Rightarrow> ndarray option \<Rightarrow> bool" where
  "rows_disagree M v =
     (case (M, v) of (Some m, Some x) \<Rightarrow> matrix_rows m \<noteq> shape0 x | _ \<Rightarrow> False)"

definition check_problem_constraints_spec ::
  "matrix option \<Rightarrow> ndarray option \<Rightarrow> matrix option \<Rightarrow> ndarray option \<Rightarrow> exn option" where
  "check_problem_constraints_spec G h A b =
     (if (G = None) \<noteq> (h = None)
      then Some (Exn ValueError ''incomplete inequality constraint (G, h)'')
      else if (A = None) \<noteq> (b = None)
      then Some (Exn ValueError ''incomplete equality constraint (A, b)'')
      else if rows_disagree G h then Some (Exn ValueError ''G and h do not agree'')
      else if rows_disagree A b then Some (Exn ValueError ''A and b do not agree'')
      else None)"

text \<open>
  Modelled from the spec: \<open>concatenate_bounds\<close> is not among the sources. The spec
  (4.2, bound folding): \<open>lb\<close>, \<open>ub\<close> "are concatenated into the inequality system as
  \<open>-x \<le> -lb\<close> and \<open>x \<le> ub\<close>, appended as additional rows of an augmented \<open>G\<close>, \<open>h\<close> pair".
\<close>

definition scaled_eye :: "real \<Rightarrow> nat \<Rightarrow> real list list" where
  "scaled_eye s n = map (\<lambda>i. map (\<lambda>j. if i = j then s else 0) [0..<n]) [0..<n]"

fun append_bound ::
  "real \<Rightarrow> ndarray option \<Rightarrow> matrix option \<times> ndarray option
   \<Rightarrow> exn + matrix option \<times> ndarray option" where
  "append_bound s None Gh = Inr Gh"
| "append_bound s (Some (Arr1 v)) (None, h) =
     Inr (Some (Dense (Arr2 (length v) (scaled_eye s (length v)))), Some (Arr1 (map (\<lambda>x. s * x) v)))"
| "append_bound s (Some (Arr1 v)) (Some (Dense (Arr2 c rows)), Some (Arr1 hv)) =
     (if c = length v
      then Inr (Some (Dense (Arr2 c (rows @ scaled_eye s c))), Some (Arr1 (hv @ map (\<lambda>x. s * x) v)))
      else Inl (Exn ValueError ''bound and G do not agree''))"
| "append_bound s (Some (Arr1 v)) (Some (Sparse c rows), Some (Arr1 hv)) =
     (if c = length v
      then Inr (Some (Sparse c (rows @ scaled_eye s c)), Some (Arr1 (hv @ map (\<lambda>x. s * x) v)))
      else Inl (Exn ValueError ''bound and G do not agree''))"
| "append_bound s b Gh = Inl (Exn ValueError ''bound and G do not agree'')"

definition concatenate_bounds_spec ::
  "matrix option \<Rightarrow> ndarray option \<Rightarrow> ndarray option \<Rightarrow> ndarray option
   \<Rightarrow> exn + matrix option \<times> ndarray option" where
  "concatenate_bounds_spec G h lb ub =
     (case append_bound (- 1) lb (G, h) of
        Inl e \<Rightarrow> Inl e
      | Inr Gh \<Rightarrow> append_bound 1 ub Gh)"









text \<open>
  Modelled from the spec: the \<open>Problem\<close> class is not among the sources. The spec
  (4.1): "construct from raw (P,q,G,h,A,b,lb,ub) ... Fails with ProblemError if G/h
  presence is mismatched, or A/b presence is mismatched."
\<close>

definition Problem_spec ::
  "matrix \<Rightarrow> ndarray \<Rightarrow> matrix option \<Rightarrow> ndarray option \<Rightarrow> matrix option \<Rightarrow> ndarray option
   \<Rightarrow> ndarray option \<Rightarrow> ndarray option \<Rightarrow> exn + problem" where
  "Problem_spec P q G h A b lb ub =
     (if (G = None) \<noteq> (h = None) \<or> (A = None) \<noteq> (b = None)
      then Inl (Exn ProblemError ''mismatched constraint pair'')
      else Inr \<lparr>prob_P = P, prob_q = q, prob_G = G, prob_h = h, prob_A = A, prob_b = b,
                prob_lb = lb, prob_ub = ub\<rparr>)"

text \<open>
  Modelled from the spec: the \<open>Solution\<close> class is not among the sources. The spec (3):
  a solution is "created fresh per solve call", "referencing the originating Problem".
\<close>

definition Solution_spec :: "problem \<Rightarrow> solution" where
  "Solution_spec p =
     \<lparr>sol_problem = Some p, sol_extras = [], sol_found = None, sol_x = None, sol_y = None,
      sol_z = None, sol_z_box = None\<rparr>"

text \<open>
  Backends for concrete evaluations. Their world is the log of the calls made to
  them: an adapter appends its name and the arguments it was called with, and
  returns a fixed outcome.
\<close>

type_synonym adapter_call =
  "string \<times> matrix \<times> ndarray \<times> matrix option \<times> ndarray option \<times> matrix option
   \<times> ndarray option \<times> kwargs"

definition logging_adapter ::
  "string \<Rightarrow> exn + real list option \<Rightarrow> adapter_call list adapter" where
  "logging_adapter name r P q G h A b kw w = (r, w @ [(name, P, q, G, h, A, b, kw)])"

definition env_of ::
  "(string \<times> 'w adapter) list \<Rightarrow> string list \<Rightarrow> 'w env" where
  "env_of registry dense =
     \<lparr>check_problem_constraints = check_problem_constraints_spec,
      concatenate_bounds = concatenate_bounds_spec,
      solve_function = map_of registry,
      dense_solvers = dense\<rparr>"

text \<open>
  Modelled from the spec: \<open>ensure_sparse_matrices\<close> is not among the sources. The spec
  (4.3): it "returns a sparse compressed-column representation of M, converting from
  dense if necessary".
\<close>

fun to_sparse :: "matrix \<Rightarrow> matrix" where
  "to_sparse (Dense (Arr1 v)) = Sparse (length v) [v]"
| "to_sparse (Dense (Arr2 c rows)) = Sparse c rows"
| "to_sparse (Sparse c rows) = Sparse c rows"

datatype piqp_event = Setup piqp_solver problem pyval kwargs | Solve piqp_solver

definition piqp_env_of :: "int \<Rightarrow> piqp_result \<Rightarrow> piqp_event list piqp_env" where
  "piqp_env_of status r =
     \<lparr>Problem = Problem_spec,
      Solution = Solution_spec,
      ensure_sparse_matrices = (\<lambda>P G A. Inr (to_sparse P, map_option to_sparse G, map_option to_sparse A)),
      solver_setup = (\<lambda>s p v kw w. (None, w @ [Setup s p v kw])),
      solver_solve = (\<lambda>s w. (Inr status, w @ [Solve s])),
      solver_result = (\<lambda>s w. r),
      PIQP_SOLVED = 1\<rparr>"

section \<open>The dispatcher over a store of array buffers\<close>

text \<open>
  The same function once more, at the level of object references, to say what it
  writes. The store is the list of the data buffers of all arrays alive; an address is
  an index into it, and allocation appends. An array object is a reference: the
  address of its buffer and its shape (row-major); two references to one address are
  two objects over the same data, as \<open>a.reshape(...)\<close> and \<open>a\<close> are. A reference is
  valid in a store when its address is allocated and its buffer has the size of its
  shape; Python has no other references.
\<close>

type_synonym addr = nat

type_synonym store = "real list list"

datatype ndref = Ref1 addr | Ref2 addr nat nat

datatype mref = DenseRef ndref | SparseRef addr nat nat

fun ref_addr :: "ndref \<Rightarrow> addr" where
  "ref_addr (Ref1 a) = a"
| "ref_addr (Ref2 a r c) = a"

fun mref_addr :: "mref \<Rightarrow> addr" where
  "mref_addr (DenseRef r) = ref_addr r"
| "mref_addr (SparseRef a r c) = a"

definition rows_at :: "store \<Rightarrow> addr \<Rightarrow> nat \<Rightarrow> nat \<Rightarrow> real list list" where
  "rows_at st a r c = map (\<lambda>i. take c (drop (i * c) (st ! a))) [0..<r]"

fun load :: "store \<Rightarrow> ndref \<Rightarrow> ndarray" where
  "load st (Ref1 a) = Arr1 (st ! a)"
| "load st (Ref2 a r c) = Arr2 c (rows_at st a r c)"

fun load_matrix :: "store \<Rightarrow> mref \<Rightarrow> matrix" where
  "load_matrix st (DenseRef r) = Dense (load st r)"
| "load_matrix st (SparseRef a r c) = Sparse c (rows_at st a r c)"

fun new_array :: "ndarray \<Rightarrow> store \<Rightarrow> ndref \<times> store" where
  "new_array (Arr1 v) st = (Ref1 (length st), st @ [v])"
| "new_array (Arr2 c rows) st = (Ref2 (length st) (length rows) c, st @ [concat rows])"

fun new_matrix :: "matrix \<Rightarrow> store \<Rightarrow> mref \<times> store" where
  "new_matrix (Dense a) st = (case new_array a st of (r, st') \<Rightarrow> (DenseRef r, st'))"
| "new_matrix (Sparse c rows) st = (SparseRef (length st) (length rows) c, st @ [concat rows])"

text \<open>Keyword values: arrays by reference.\<close>

datatype pyobj = Val pyval | ArrRef ndref

type_synonym kwargs_st = "(string \<times> pyobj) list"

definition opt_ref :: "ndref option \<Rightarrow> pyobj" where
  "opt_ref a = (case a of None \<Rightarrow> Val PyNone | Some r \<Rightarrow> ArrRef r)"

text \<open>
  An adapter is handed references and the store: it can write into the arrays it is
  given. The two helpers are handed references as well. What they do to the store is
  not in the sources, so they are parameters that may do anything to it.
\<close>

type_synonym 'w adapter_st =
  "mref \<Rightarrow> ndref \<Rightarrow> mref option \<Rightarrow> ndref option \<Rightarrow> mref option \<Rightarrow> ndref option
   \<Rightarrow> kwargs_st \<Rightarrow> store \<Rightarrow> 'w \<Rightarrow> (exn + real list option) \<times> store \<times> 'w"

record 'w store_env =
  check_problem_constraints_st ::
    "mref option \<Rightarrow> ndref option \<Rightarrow> mref option \<Rightarrow> ndref option \<Rightarrow> store \<Rightarrow> exn option \<times> store"
  concatenate_bounds_st ::
    "mref option \<Rightarrow> ndref option \<Rightarrow> ndref option \<Rightarrow> ndref option \<Rightarrow> store
     \<Rightarrow> (exn + mref option \<times> ndref option) \<times> store"
  solve_function_st :: "string \<Rightarrow> 'w adapter_st option"

text \<open>
  Line 118: the value of \<open>0.5 * (P + P.transpose())\<close> is computed from what \<open>P\<close> holds
  and stored in a new array; \<open>P\<close> then names the new array.
\<close>

definition symmetrize_st :: "mref \<Rightarrow> store \<Rightarrow> exn + mref \<times> store" where
  "symmetrize_st P st =
     (case symmetric_part (load_matrix st P) of
        Inl e \<Rightarrow> Inl e
      | Inr S \<Rightarrow> Inr (new_matrix S st))"

text \<open>Lines 119-122: \<open>reshape\<close> of a one-dimensional array is a view of the same buffer.\<close>

fun promote_row_st :: "store \<Rightarrow> mref option \<Rightarrow> mref option" where
  "promote_row_st st (Some (DenseRef (Ref1 a))) = Some (DenseRef (Ref2 a 1 (length (st ! a))))"
| "promote_row_st st M = M"

definition adapter_kwargs_st :: "kwargs_st \<Rightarrow> ndref option \<Rightarrow> bool \<Rightarrow> kwargs_st" where
  "adapter_kwargs_st kwargs initvals verbose =
     AList.update ''verbose'' (Val (PyBool verbose))
       (AList.update ''initvals'' (opt_ref initvals) kwargs)"

definition solver_call_st :: "'w store_env \<Rightarrow> string \<Rightarrow> 'w adapter_st" where
  "solver_call_st env solver P q G h A b kw st w =
     (case dict_getitem (solve_function_st env) solver of
        Inl e \<Rightarrow> (Inl e, st, w)
      | Inr f \<Rightarrow> f P q G h A b kw st w)"

text \<open>\<open>solve_qp\<close>, lines 117-130.\<close>

definition solve_qp_st ::
  "'w store_env \<Rightarrow> mref \<Rightarrow> ndref \<Rightarrow> mref option \<Rightarrow> ndref option \<Rightarrow> mref option \<Rightarrow> ndref option
   \<Rightarrow> ndref option \<Rightarrow> ndref option \<Rightarrow> string \<Rightarrow> ndref option \<Rightarrow> bool \<Rightarrow> bool \<Rightarrow> kwargs_st
   \<Rightarrow> store \<Rightarrow> 'w \<Rightarrow> (exn + real list option) \<times> store \<times> 'w" where
  "solve_qp_st env P q G h A b lb ub solver initvals sym_proj verbose kwargs st w =
     (case (if sym_proj then symmetrize_st P st else Inr (P, st)) of
        Inl e \<Rightarrow> (Inl e, st, w)
      | Inr (P1, st1) \<Rightarrow>
          let A1 = promote_row_st st1 A; G1 = promote_row_st st1 G in
          (case check_problem_constraints_st env G1 h A1 b st1 of
             (Some e, st2) \<Rightarrow> (Inl e, st2, w)
           | (None, st2) \<Rightarrow>
               (case concatenate_bounds_st env G1 h lb ub st2 of
                  (Inl e, st3) \<Rightarrow> (Inl e, st3, w)
                | (Inr (G2, h2), st3) \<Rightarrow>
                    let kw = adapter_kwargs_st kwargs initvals verbose in
                    (case solver_call_st env solver P1 q G2 h2 A1 b kw st3 w of
                       (Inl e, st', w') \<Rightarrow>
                         if exn_class e = KeyError then (Inl (not_available solver), st', w')
                         else (Inl e, st', w')
                     | (Inr x, st', w') \<Rightarrow> (Inr x, st', w')))))"

text \<open>The buffer at address \<open>a\<close> is still allocated and holds the same elements.\<close>

definition keeps :: "addr \<Rightarrow> store \<Rightarrow> store \<Rightarrow> bool" where
  "keeps a st st' = (a < length st' \<and> st' ! a = st ! a)"

text \<open>
  Modelled from the spec: helpers and adapters that only read the arrays they are
  handed. The spec (5): arguments "are treated as read-only inputs", and
  "bound-folding always produce new objects". \<open>reading_check\<close>, \<open>reading_fold\<close> and
  \<open>reading_adapter\<close> turn a helper or an adapter on array values into one on
  references that reads its arguments from the store, writes nothing, and (the
  folding) stores its result in new arrays.
\<close>

definition load_kwargs :: "store \<Rightarrow> kwargs_st \<Rightarrow> kwargs" where
  "load_kwargs st kw =
     map (\<lambda>kv. (fst kv, case snd kv of Val x \<Rightarrow> x | ArrRef r \<Rightarrow> PyArray (load st r))) kw"

fun new_array_opt :: "ndarray option \<Rightarrow> store \<Rightarrow> ndref option \<times> store" where
  "new_array_opt None st = (None, st)"
| "new_array_opt (Some v) st = (Some (fst (new_array v st)), snd (new_array v st))"

fun new_matrix_opt :: "matrix option \<Rightarrow> store \<Rightarrow> mref option \<times> store" where
  "new_matrix_opt None st = (None, st)"
| "new_matrix_opt (Some M) st = (Some (fst (new_matrix M st)), snd (new_matrix M st))"

definition reading_check ::
  "(matrix option \<Rightarrow> ndarray option \<Rightarrow> matrix option \<Rightarrow> ndarray option \<Rightarrow> exn option)
   \<Rightarrow> mref option \<Rightarrow> ndref option \<Rightarrow> mref option \<Rightarrow> ndref option \<Rightarrow> store
   \<Rightarrow> exn option \<times> store" where
  "reading_check chk G h A b st =
     (chk (map_option (load_matrix st) G) (map_option (load st) h)
          (map_option (load_matrix st) A) (map_option (load st) b), st)"

definition reading_fold ::
  "(matrix option \<Rightarrow> ndarray option \<Rightarrow> ndarray option \<Rightarrow> ndarray option
      \<Rightarrow> exn + matrix option \<times> ndarray option)
   \<Rightarrow> mref option \<Rightarrow> ndref option \<Rightarrow> ndref option \<Rightarrow> ndref option \<Rightarrow> store
   \<Rightarrow> (exn + mref option \<times> ndref option) \<times> store" where
  "reading_fold cb G h lb ub st =
     (case cb (map_option (load_matrix st) G) (map_option (load st) h)
                (map_option (load st) lb) (map_option (load st) ub) of
        Inl e \<Rightarrow> (Inl e, st)
      | Inr (Gv, hv) \<Rightarrow>
          (let (G2, st1) = new_matrix_opt Gv st; (h2, st2) = new_array_opt hv st1
           in (Inr (G2, h2), st2)))"

definition reading_adapter :: "'w adapter \<Rightarrow> 'w adapter_st" where
  "reading_adapter f P q G h A b kw st w =
     (case f (load_matrix st P) (load st q) (map_option (load_matrix st) G)
             (map_option (load st) h) (map_option (load_matrix st) A) (map_option (load st) b)
             (load_kwargs st kw) w of
        (r, w') \<Rightarrow> (r, st, w'))"

definition store_env_of :: "'w env \<Rightarrow> 'w store_env" where
  "store_env_of env =
     \<lparr>check_problem_constraints_st = reading_check (check_problem_constraints env),
      concatenate_bounds_st = reading_fold (concatenate_bounds env),
      solve_function_st = (\<lambda>name. map_option reading_adapter (solve_function env name))\<rparr>"

text \<open>An adapter that negates its \<open>q\<close> in place (\<open>q *= -1\<close>) and returns it.\<close>

definition negating_adapter :: "'w adapter_st" where
  "negating_adapter P q G h A b kw st w =
     (Inr (Some (map uminus (st ! ref_addr q))),
      st[ref_addr q := map uminus (st ! ref_addr q)], w)"

text \<open>Valid references: the address is allocated and the buffer has the size of the shape.\<close>

fun valid_ref :: "store \<Rightarrow> ndref \<Rightarrow> bool" where
  "valid_ref st (Ref1 a) = (a < length st)"
| "valid_ref st (Ref2 a r c) = (a < length st \<and> length (st ! a) = r * c)"

fun valid_mref :: "store \<Rightarrow> mref \<Rightarrow> bool" where
  "valid_mref st (DenseRef r) = valid_ref st r"
| "valid_mref st (SparseRef a r c) = (a < length st \<and> length (st ! a) = r * c)"

fun valid_obj :: "store \<Rightarrow> pyobj \<Rightarrow> bool" where
  "valid_obj st (Val v) = True"
| "valid_obj st (ArrRef r) = valid_ref st r"

text \<open>The outcome and the backend world of a run, without the store.\<close>

definition outcome :: "'r \<times> store \<times> 'w \<Rightarrow> 'r \<times> 'w" where
  "outcome t = (fst t, snd (snd t))"

section \<open>Properties of the symmetrization\<close>

lemma bidx_lt: "i < d \<Longrightarrow> bidx d i = i"
  by (auto simp: bidx_def)

lemma broadcast_dim_same: "broadcast_dim a a = Some a"
  by (simp add: broadcast_dim_def)

lemma columns_nth: "j < c \<Longrightarrow> i < length rows \<Longrightarrow> columns c rows ! j ! i = rows ! i ! j"
  by (simp add: columns_def)

lemma length_columns: "length (columns c rows) = c"
  by (simp add: columns_def)

lemma add_rows_square:
  "length rows = c \<Longrightarrow> add_rows c rows c (columns c rows) =
     Inr (c, map (\<lambda>i. map (\<lambda>j. rows ! i ! j + rows ! j ! i) [0..<c]) [0..<c])"
  by (simp add: add_rows_def broadcast_dim_same length_columns bidx_lt columns_nth)

lemma symmetric_part_dense:
  "length rows = c \<Longrightarrow>
   symmetric_part (Dense (Arr2 c rows)) = Inr (Dense (Arr2 c (sym_entries c rows)))"
  by (simp add: add_rows_square sym_entries_def comp_def)

lemma symmetric_part_sparse:
  "length rows = c \<Longrightarrow> list_all (\<lambda>r. length r = c) rows \<Longrightarrow>
   symmetric_part (Sparse c rows) = Inr (Sparse c (sym_entries c rows))"
  apply (simp add: sym_entries_def)
  apply (rule nth_equalityI)
   apply (simp add: length_columns)
  apply (simp add: length_columns)
  apply (rule nth_equalityI)
   apply (simp add: columns_def list_all_length)
  apply (simp add: columns_def list_all_length)
  done

lemma sym_entries_nth:
  "i < c \<Longrightarrow> j < c \<Longrightarrow> sym_entries c rows ! i ! j = 1/2 * (rows ! i ! j + rows ! j ! i)"
  by (simp add: sym_entries_def)

lemma sym_entries_idem: "sym_entries c (sym_entries c rows) = sym_entries c rows"
  unfolding sym_entries_def [of c "sym_entries c rows"]
  by (simp add: sym_entries_nth) (simp add: sym_entries_def field_simps)

lemma length_sym_entries: "length (sym_entries c rows) = c"
  by (simp add: sym_entries_def)

lemma sym_entries_rows: "list_all (\<lambda>r. length r = c) (sym_entries c rows)"
  by (simp add: sym_entries_def list_all_iff)

text \<open>
  C7. The symmetrization \<open>P \<mapsto> 1/2 (P + P\<^sup>T)\<close> that \<open>solve_qp\<close> applies when \<open>sym_proj\<close>
  is set is idempotent: on every square matrix, dense or sparse, it succeeds, and
  applied to its own result it returns that result again. Entries are reals, so the
  equality is exact; the claim's "up to rounding" is the floating-point reading of it.
\<close>

theorem symmetrization_idempotent:
  "square_matrix P \<Longrightarrow> \<exists>S. symmetric_part P = Inr S \<and> symmetric_part S = Inr S"
proof (induction P rule: square_matrix.induct)
  case (1 v)
  then show ?case by simp
next
  case (2 c rows)
  then have len: "length rows = c" by simp
  have "symmetric_part (Dense (Arr2 c (sym_entries c rows))) =
        Inr (Dense (Arr2 c (sym_entries c rows)))"
    using symmetric_part_dense [OF length_sym_entries, of c rows]
    by (simp only: sym_entries_idem)
  with symmetric_part_dense [OF len] show ?case by blast
next
  case (3 c rows)
  then have len: "length rows = c" and rs: "list_all (\<lambda>r. length r = c) rows" by simp_all
  have "symmetric_part (Sparse c (sym_entries c rows)) =
        Inr (Sparse c (sym_entries c rows))"
    using symmetric_part_sparse [OF length_sym_entries sym_entries_rows, of c rows]
    by (simp only: sym_entries_idem)
  with symmetric_part_sparse [OF len rs] show ?case by blast
qed

theorem symmetrization_idempotent_witness:
  "square_matrix (Dense (Arr2 2 [[1, 2], [4, 3]])) \<and>
   symmetric_part (Dense (Arr2 2 [[1, 2], [4, 3]])) = Inr (Dense (Arr2 2 [[1, 3], [3, 3]])) \<and>
   (\<exists>S. symmetric_part (Dense (Arr2 2 [[1, 2], [4, 3]])) = Inr S \<and> symmetric_part S = Inr S)"
proof -
  have sq: "square_matrix (Dense (Arr2 2 [[1, 2], [4, 3]]))" by simp
  have ev: "symmetric_part (Dense (Arr2 2 [[1, 2], [4, 3]])) =
            Inr (Dense (Arr2 2 [[1, 3], [3, 3]]))"
    by (simp add: add_rows_def broadcast_dim_def bidx_def columns_def upt_conv_Cons)
  from sq ev symmetrization_idempotent [OF sq] show ?thesis by blast
qed

section \<open>Properties of the safer QP\<close>

lemma dot_append: "length a = length c \<Longrightarrow> dot (a @ b) (c @ d) = dot a c + dot b d"
  by (simp add: dot_def)

lemma dot_zero: "dot (replicate n 0) x = 0"
proof (induction n arbitrary: x)
  case 0
  then show ?case by (simp add: dot_def)
next
  case (Suc n)
  then show ?case by (cases x) (simp_all add: dot_def)
qed

lemma dot_unit: "i < m \<Longrightarrow> length s = m \<Longrightarrow> dot (unit_row k m i) s = k * s ! i"
proof -
  assume i: "i < m" and s: "length s = m"
  have "dot (unit_row k m i) s = (\<Sum>j = 0..<m. (if i = j then k else 0) * s ! j)"
    using s by (simp add: dot_def unit_row_def sum_list_sum_nth)
  also have "\<dots> = (\<Sum>j = 0..<m. if i = j then k * s ! i else 0)"
    by (rule sum.cong) auto
  also have "\<dots> = k * s ! i"
    using i by simp
  finally show ?thesis .
qed

lemma dot_scale_right: "dot s (map (\<lambda>y. k * y) t) = k * dot s t"
proof (induction s arbitrary: t)
  case Nil
  then show ?case by (simp add: dot_def)
next
  case (Cons a s)
  then show ?case by (cases t) (simp_all add: dot_def algebra_simps)
qed

lemma dot_replicate: "length s = m \<Longrightarrow> dot (replicate m k) s = k * sum_list s"
proof (induction s arbitrary: m)
  case Nil
  then show ?case by (simp add: dot_def)
next
  case (Cons a s)
  then show ?case by (cases m) (auto simp: dot_def algebra_simps)
qed

lemma columns_replicate:
  "columns n (replicate m (replicate n 0)) = replicate n (replicate m (0::real))"
  by (rule nth_equalityI) (auto simp: columns_def intro: nth_equalityI)

lemma safer_qp_problem_built:
  assumes P: "is_matrix n n P" and q: "is_vector n q" and G: "is_matrix m n G"
  shows "safer_qp_problem P q G h sw reg =
     Inr (Arr2 (n + m) (map (\<lambda>r. r @ replicate m 0) (rows_of P)
                        @ map (\<lambda>i. replicate n 0 @ unit_row reg m i) [0..<m]),
          Arr1 (vec_of q @ replicate m (- sw)),
          Arr2 (n + m) (map (\<lambda>i. replicate n 0 @ unit_row 1 m i) [0..<m]),
          Arr1 (replicate m 0),
          Arr2 (n + m) (map (\<lambda>i. rows_of G ! i @ unit_row (- 1) m i) [0..<m]),
          h)"
proof -
  obtain pr where [simp]: "P = Arr2 n pr" "length pr = n"
    using P by (cases P) auto
  obtain qv where [simp]: "q = Arr1 qv"
    using q by (cases q) auto
  obtain gr where [simp]: "G = Arr2 n gr" "length gr = m"
    using G by (cases G) auto
  have a: "map2 (@) pr (replicate n (replicate m 0)) = map (\<lambda>r. r @ replicate m (0::real)) pr"
    by (rule nth_equalityI) auto
  have b: "map2 (@) (replicate m (replicate n 0))
             (map (map ((*) reg)) (map (\<lambda>i. map (\<lambda>j. if i = j then 1 else 0) [0..<m]) [0..<m]))
           = map (\<lambda>i. replicate n 0 @ unit_row reg m i) [0..<m]"
    by (rule nth_equalityI) (auto simp: unit_row_def)
  have c: "map2 (@) (replicate m (replicate n 0))
             (map (\<lambda>i. map (\<lambda>j. if i = j then 1 else 0) [0..<m]) [0..<m])
           = map (\<lambda>i. replicate n 0 @ unit_row 1 m i) [0..<m]"
    by (rule nth_equalityI) (auto simp: unit_row_def)
  have d: "map2 (@) gr
             (map (map uminus) (map (\<lambda>i. map (\<lambda>j. if i = j then 1 else 0) [0..<m]) [0..<m]))
           = map (\<lambda>i. gr ! i @ unit_row (- 1) m i) [0..<m]"
    by (rule nth_equalityI) (auto simp: unit_row_def)
  show ?thesis
    using a b c d
    by (simp add: safer_qp_problem_def Let_def eye_def zeros2_def zeros1_def ones1_def
        columns_replicate vstack_def)
qed

lemma augmented_ineq:
  assumes "length x = n" "length s = m"
  shows "satisfies_ineq (Arr2 (n + m) (map (\<lambda>i. replicate n 0 @ unit_row 1 m i) [0..<m]))
           (Arr1 (replicate m 0)) (x @ s) \<longleftrightarrow> (\<forall>i<m. s ! i \<le> 0)"
proof -
  have "mat_vec (map (\<lambda>i. replicate n 0 @ unit_row 1 m i) [0..<m]) (x @ s) = s"
    using assms by (intro nth_equalityI) (simp_all add: mat_vec_def dot_append dot_zero dot_unit)
  then show ?thesis
    using assms by (simp add: satisfies_ineq_def list_all2_conv_all_nth)
qed

lemma augmented_eq:
  assumes "length x = n" "length s = m" "is_matrix m n G" "is_vector m h"
  shows "satisfies_eq (Arr2 (n + m) (map (\<lambda>i. rows_of G ! i @ unit_row (- 1) m i) [0..<m]))
           h (x @ s) \<longleftrightarrow> (\<forall>i<m. mat_vec (rows_of G) x ! i - s ! i = vec_of h ! i)"
proof -
  obtain gr where [simp]: "G = Arr2 n gr" "length gr = m"
    and gr: "list_all (\<lambda>r. length r = n) gr"
    using assms(3) by (cases G) auto
  obtain hv where [simp]: "h = Arr1 hv" "length hv = m"
    using assms(4) by (cases h) auto
  have "mat_vec (map (\<lambda>i. gr ! i @ unit_row (- 1) m i) [0..<m]) (x @ s)
        = map (\<lambda>i. mat_vec gr x ! i - s ! i) [0..<m]"
    using assms(1,2) gr
    by (simp add: mat_vec_def dot_append dot_unit list_all_length)
  then show ?thesis
    by (auto simp: satisfies_eq_def list_eq_iff_nth_eq)
qed

lemma augmented_cost:
  assumes "length x = n" "length s = m" "is_matrix n n P" "is_vector n q"
  shows "quad_cost (Arr2 (n + m) (map (\<lambda>r. r @ replicate m 0) (rows_of P)
                        @ map (\<lambda>i. replicate n 0 @ unit_row reg m i) [0..<m]))
           (Arr1 (vec_of q @ replicate m (- sw))) (x @ s)
         = quad_cost P q x + 1/2 * reg * dot s s - sw * sum_list s"
proof -
  obtain pr where [simp]: "P = Arr2 n pr" "length pr = n"
    and pr: "list_all (\<lambda>r. length r = n) pr"
    using assms(3) by (cases P) auto
  obtain qv where [simp]: "q = Arr1 qv" "length qv = n"
    using assms(4) by (cases q) auto
  have up: "map (\<lambda>r. dot (r @ replicate m 0) (x @ s)) pr = mat_vec pr x"
    using pr assms(1) by (simp add: mat_vec_def list_all_iff dot_append dot_zero)
  have "map (\<lambda>i. dot (replicate n 0 @ unit_row reg m i) (x @ s)) [0..<m]
        = map (\<lambda>i. reg * s ! i) [0..<m]"
    using assms(1,2) by (simp add: dot_append dot_zero dot_unit)
  also have "\<dots> = map (\<lambda>y. reg * y) s"
    using assms(2) by (intro nth_equalityI) auto
  finally have low: "map (\<lambda>i. dot (replicate n 0 @ unit_row reg m i) (x @ s)) [0..<m]
        = map (\<lambda>y. reg * y) s" .
  have "mat_vec (map (\<lambda>r. r @ replicate m 0) pr
          @ map (\<lambda>i. replicate n 0 @ unit_row reg m i) [0..<m]) (x @ s)
        = mat_vec pr x @ map (\<lambda>y. reg * y) s"
    using up low by (simp add: mat_vec_def comp_def)
  moreover have "length (mat_vec pr x) = length x"
    using assms(1) by (simp add: mat_vec_def)
  ultimately have "dot (x @ s) (mat_vec (map (\<lambda>r. r @ replicate m 0) pr
        @ map (\<lambda>i. replicate n 0 @ unit_row reg m i) [0..<m]) (x @ s))
      = dot x (mat_vec pr x) + reg * dot s s"
    by (simp add: dot_append dot_scale_right)
  moreover have "dot (qv @ replicate m (- sw)) (x @ s) = dot qv x - sw * sum_list s"
    using assms(1,2) by (simp add: dot_append dot_replicate)
  ultimately show ?thesis
    by (simp add: quad_cost_def algebra_simps)
qed

lemmas eval_arrays = safer_qp_problem_def Let_def eye_def zeros2_def zeros1_def ones1_def
  columns_def vstack_def unit_row_def upt_conv_Cons

lemmas eval_solve_qp = solve_qp_def solve_safer_qp_def solver_call_def dict_getitem_def
  env_of_def logging_adapter_def adapter_kwargs_def opt_array_def
  check_problem_constraints_spec_def rows_disagree_def concatenate_bounds_spec_def
  not_available_def

text \<open>
  What lines 209-216 build, in every dimension. Over the state vector \<open>[x; s]\<close> the
  cost matrix is the block diagonal of \<open>P\<close> and \<open>reg I\<close> and the linear cost is
  \<open>[q; -sw 1]\<close>, so that the cost of \<open>[x; s]\<close> is the cost of \<open>x\<close> plus
  \<open>1/2 reg |s|\<^sup>2 - sw 1\<^sup>T s\<close>; the inequality pair is \<open>([0 I], 0)\<close>, which \<open>solve_qp\<close>
  reads as \<open>[0 I] z \<le> 0\<close> and which holds of \<open>[x; s]\<close> exactly when \<open>s \<le> 0\<close>; the equality
  pair is \<open>([G -I], h)\<close>, which holds exactly when \<open>G x - s = h\<close>.
\<close>

lemma safer_qp_problem_semantics:
  assumes "is_matrix n n P" "is_vector n q" "is_matrix m n G" "is_vector m h"
  shows "\<exists>P2 q2 G2 h2 A2.
      safer_qp_problem P q G h sw reg = Inr (P2, q2, G2, h2, A2, h)
    \<and> P2 = Arr2 (n + m) (map (\<lambda>r. r @ replicate m 0) (rows_of P)
                          @ map (\<lambda>i. replicate n 0 @ unit_row reg m i) [0..<m])
    \<and> q2 = Arr1 (vec_of q @ replicate m (- sw))
    \<and> G2 = Arr2 (n + m) (map (\<lambda>i. replicate n 0 @ unit_row 1 m i) [0..<m])
    \<and> h2 = Arr1 (replicate m 0)
    \<and> A2 = Arr2 (n + m) (map (\<lambda>i. rows_of G ! i @ unit_row (- 1) m i) [0..<m])
    \<and> (\<forall>x s. length x = n \<and> length s = m \<longrightarrow>
          quad_cost P2 q2 (x @ s) = quad_cost P q x + 1/2 * reg * dot s s - sw * sum_list s
        \<and> (satisfies_ineq G2 h2 (x @ s) \<longleftrightarrow> (\<forall>i<m. s ! i \<le> 0))
        \<and> (satisfies_eq A2 h (x @ s) \<longleftrightarrow>
             (\<forall>i<m. mat_vec (rows_of G) x ! i - s ! i = vec_of h ! i)))
    \<and> (solver \<in> set (dense_solvers env) \<longrightarrow>
          snd (solve_safer_qp env P q G h sw reg solver initvals sym_proj w)
          = snd (solve_qp env (Dense P2) q2 (Some (Dense G2)) (Some h2) (Some (Dense A2))
                   (Some h) None None solver initvals sym_proj False [] w))"
proof -
  note built = safer_qp_problem_built [OF assms(1,2,3), of h sw reg]
  have "solver \<in> set (dense_solvers env) \<Longrightarrow>
      snd (solve_safer_qp env P q G h sw reg solver initvals sym_proj w)
      = snd (solve_qp env (Dense (Arr2 (n + m) (map (\<lambda>r. r @ replicate m 0) (rows_of P)
                        @ map (\<lambda>i. replicate n 0 @ unit_row reg m i) [0..<m])))
              (Arr1 (vec_of q @ replicate m (- sw)))
              (Some (Dense (Arr2 (n + m) (map (\<lambda>i. replicate n 0 @ unit_row 1 m i) [0..<m]))))
              (Some (Arr1 (replicate m 0)))
              (Some (Dense (Arr2 (n + m) (map (\<lambda>i. rows_of G ! i @ unit_row (- 1) m i) [0..<m]))))
              (Some h) None None solver initvals sym_proj False [] w)"
    unfolding solve_safer_qp_def built
    by (simp split: prod.splits sum.splits option.splits)
  with built augmented_cost [OF _ _ assms(1,2)] augmented_ineq augmented_eq [OF _ _ assms(3,4)]
  show ?thesis by (intro exI conjI) (assumption | simp)+
qed

lemma augmented_pair_ineq:
  "satisfies_ineq (Arr2 2 [[0, 1]]) (Arr1 [0]) [x, s] \<longleftrightarrow> s \<le> 0"
  by (simp add: satisfies_ineq_def mat_vec_def dot_def)

lemma augmented_pair_eq:
  "satisfies_eq (Arr2 2 [[1, - 1]]) (Arr1 [1]) [x, s] \<longleftrightarrow> x - s = 1"
  by (simp add: satisfies_eq_def mat_vec_def dot_def)

lemma augmented_pair_cost:
  "quad_cost (Arr2 2 [[1, 0], [0, r]]) (Arr1 [0, - k]) [x, s]
   = 1/2 * (x * x + r * (s * s)) - k * s"
  by (simp add: quad_cost_def mat_vec_def dot_def algebra_simps)

lemma boundary_point_cheaper:
  fixes x s :: real
  assumes "s \<le> 0" "x - s = 1" "x \<le> 0"
  shows "1/2 * (1/10 * (1/10) + 1/100000000 * (- (9/10) * - (9/10))) - 1/10 * - (9/10)
         < 1/2 * (x * x + 1/100000000 * (s * s)) - 1/10 * s"
proof -
  have s: "s = x - 1" using assms(2) by simp
  have a: "0 \<le> x * x" by simp
  have "0 \<le> x * (x - 2)" using assms(3) by (intro mult_nonpos_nonpos) simp_all
  then have b: "1 \<le> s * s" unfolding s by (simp add: algebra_simps)
  have c: "1/10 \<le> - (1/10 * s)" unfolding s using assms(3) by simp
  have lin: "19/200 + 81/20000000000 < 1/2 * (X + 1/100000000 * S) + t"
    if "0 \<le> X" "1 \<le> S" "1/10 \<le> t" for X S t :: real
    using that by (simp add: field_simps)
  have "1/2 * (1/10 * (1/10) + 1/100000000 * (- (9/10) * - (9/10))) - 1/10 * - (9/10)
        = (19/200 + 81/20000000000 :: real)"
    by simp
  also note lin [OF a b c]
  finally show ?thesis by simp
qed

text \<open>
  C1. The spec reads the new inequality as \<open>s \<ge> 0\<close>, with a weight \<open>sw\<close> that pulls the
  solution into the constraint interior. The arrays built are \<open>G2 = [0 I]\<close> and
  \<open>h2 = 0\<close>, which \<open>solve_qp\<close> reads as \<open>G2 z \<le> h2\<close>, that is \<open>s \<le> 0\<close>. With
  \<open>G x - s = h\<close> this keeps \<open>G x \<le> h\<close>, but the linear cost \<open>-sw 1\<^sup>T s\<close> then charges the
  margin \<open>h - G x\<close>: the solution is pulled towards the boundary of the constraint
  region, where the docstring (lines 155-157) says that it is "further inside the
  constraint region".

  At \<open>P = [[1]]\<close>, \<open>q = [0]\<close>, \<open>G = [[1]]\<close>, \<open>h = [1]\<close>, \<open>sw = 1/10\<close>, \<open>reg = 10\<^sup>-\<^sup>8\<close> and a
  dense solver: the six arrays are built and handed to the adapter as below; the
  point with slack \<open>s = 1 \<ge> 0\<close> violates the dispatched inequality; the original
  problem (minimize \<open>x\<^sup>2/2\<close> subject to \<open>x \<le> 1\<close>) has its optimum at the feasible point
  \<open>x = 0\<close>; the point \<open>(1/10, -9/10)\<close> is feasible for the dispatched problem, and every
  feasible point of the dispatched problem with \<open>x \<le> 0\<close> costs strictly more than it.
  So a backend that minimizes the dispatched problem returns some \<open>x > 0\<close>, nearer to
  the boundary \<open>x = 1\<close> than the optimum of the original problem.
\<close>

theorem safer_qp_slack_sign:
  "safer_qp_problem (Arr2 1 [[1]]) (Arr1 [0]) (Arr2 1 [[1]]) (Arr1 [1]) (1/10) (1/100000000)
     = Inr (Arr2 2 [[1, 0], [0, 1/100000000]], Arr1 [0, - (1/10)],
            Arr2 2 [[0, 1]], Arr1 [0], Arr2 2 [[1, - 1]], Arr1 [1])
   \<and> snd (solve_safer_qp
            (env_of [(''quadprog'', logging_adapter ''quadprog'' (Inr None))] [''quadprog''])
            (Arr2 1 [[1]]) (Arr1 [0]) (Arr2 1 [[1]]) (Arr1 [1]) (1/10) (1/100000000)
            ''quadprog'' None False [])
     = [(''quadprog'', Dense (Arr2 2 [[1, 0], [0, 1/100000000]]), Arr1 [0, - (1/10)],
         Some (Dense (Arr2 2 [[0, 1]])), Some (Arr1 [0]),
         Some (Dense (Arr2 2 [[1, - 1]])), Some (Arr1 [1]),
         [(''initvals'', PyNone), (''verbose'', PyBool False)])]
   \<and> \<not> satisfies_ineq (Arr2 2 [[0, 1]]) (Arr1 [0]) [0, 1]
   \<and> satisfies_ineq (Arr2 1 [[1]]) (Arr1 [1]) [0]
   \<and> (\<forall>x. quad_cost (Arr2 1 [[1]]) (Arr1 [0]) [0] \<le> quad_cost (Arr2 1 [[1]]) (Arr1 [0]) [x])
   \<and> satisfies_ineq (Arr2 2 [[0, 1]]) (Arr1 [0]) [1/10, - (9/10)]
   \<and> satisfies_eq (Arr2 2 [[1, - 1]]) (Arr1 [1]) [1/10, - (9/10)]
   \<and> (\<forall>x s. satisfies_ineq (Arr2 2 [[0, 1]]) (Arr1 [0]) [x, s]
            \<and> satisfies_eq (Arr2 2 [[1, - 1]]) (Arr1 [1]) [x, s] \<and> x \<le> 0 \<longrightarrow>
          quad_cost (Arr2 2 [[1, 0], [0, 1/100000000]]) (Arr1 [0, - (1/10)]) [1/10, - (9/10)]
          < quad_cost (Arr2 2 [[1, 0], [0, 1/100000000]]) (Arr1 [0, - (1/10)]) [x, s])"
proof -
  have built: "safer_qp_problem (Arr2 1 [[1]]) (Arr1 [0]) (Arr2 1 [[1]]) (Arr1 [1]) (1/10)
       (1/100000000)
     = Inr (Arr2 2 [[1, 0], [0, 1/100000000]], Arr1 [0, - (1/10)],
            Arr2 2 [[0, 1]], Arr1 [0], Arr2 2 [[1, - 1]], Arr1 [1])"
    by (simp add: eval_arrays)
  have sent: "snd (solve_safer_qp
            (env_of [(''quadprog'', logging_adapter ''quadprog'' (Inr None))] [''quadprog''])
            (Arr2 1 [[1]]) (Arr1 [0]) (Arr2 1 [[1]]) (Arr1 [1]) (1/10) (1/100000000)
            ''quadprog'' None False [])
     = [(''quadprog'', Dense (Arr2 2 [[1, 0], [0, 1/100000000]]), Arr1 [0, - (1/10)],
         Some (Dense (Arr2 2 [[0, 1]])), Some (Arr1 [0]),
         Some (Dense (Arr2 2 [[1, - 1]])), Some (Arr1 [1]),
         [(''initvals'', PyNone), (''verbose'', PyBool False)])]"
    unfolding solve_safer_qp_def built by (simp add: eval_solve_qp)
  have orig: "\<forall>x. quad_cost (Arr2 1 [[1]]) (Arr1 [0]) [0] \<le> quad_cost (Arr2 1 [[1]]) (Arr1 [0]) [x]"
    by (simp add: quad_cost_def mat_vec_def dot_def)
  have feas0: "satisfies_ineq (Arr2 1 [[1]]) (Arr1 [1]) [0]"
    by (simp add: satisfies_ineq_def mat_vec_def dot_def)
  have worse: "\<forall>x s. satisfies_ineq (Arr2 2 [[0, 1]]) (Arr1 [0]) [x, s]
            \<and> satisfies_eq (Arr2 2 [[1, - 1]]) (Arr1 [1]) [x, s] \<and> x \<le> 0 \<longrightarrow>
          quad_cost (Arr2 2 [[1, 0], [0, 1/100000000]]) (Arr1 [0, - (1/10)]) [1/10, - (9/10)]
          < quad_cost (Arr2 2 [[1, 0], [0, 1/100000000]]) (Arr1 [0, - (1/10)]) [x, s]"
    unfolding augmented_pair_ineq augmented_pair_eq augmented_pair_cost using boundary_point_cheaper by blast
  have pos: "\<not> satisfies_ineq (Arr2 2 [[0, 1]]) (Arr1 [0]) [0, 1]"
    and neg: "satisfies_ineq (Arr2 2 [[0, 1]]) (Arr1 [0]) [1/10, - (9/10)]"
    and eq: "satisfies_eq (Arr2 2 [[1, - 1]]) (Arr1 [1]) [1/10, - (9/10)]"
    by (simp_all add: augmented_pair_ineq augmented_pair_eq)
  show ?thesis
    by (intro conjI) (rule built, rule sent, rule pos, rule feas0, rule orig, rule neg, rule eq,
        rule worse)
qed

theorem safer_qp_slack_sign_witness:
  "satisfies_ineq (Arr2 2 [[0, 1]]) (Arr1 [0]) [0, - 1]
   \<and> satisfies_eq (Arr2 2 [[1, - 1]]) (Arr1 [1]) [0, - 1]
   \<and> (0::real) \<le> 0
   \<and> quad_cost (Arr2 2 [[1, 0], [0, 1/100000000]]) (Arr1 [0, - (1/10)]) [1/10, - (9/10)]
     < quad_cost (Arr2 2 [[1, 0], [0, 1/100000000]]) (Arr1 [0, - (1/10)]) [0, - 1]"
proof -
  have 1: "satisfies_ineq (Arr2 2 [[0, 1]]) (Arr1 [0]) [0, - 1]"
    and 2: "satisfies_eq (Arr2 2 [[1, - 1]]) (Arr1 [1]) [0, - 1]"
    by (simp_all add: satisfies_ineq_def satisfies_eq_def mat_vec_def dot_def)
  note w = safer_qp_slack_sign [THEN conjunct2, THEN conjunct2, THEN conjunct2, THEN conjunct2,
      THEN conjunct2, THEN conjunct2, THEN conjunct2, rule_format, of 0 "- 1"]
  from w 1 2 have "quad_cost (Arr2 2 [[1, 0], [0, 1/100000000]]) (Arr1 [0, - (1/10)])
       [1/10, - (9/10)]
     < quad_cost (Arr2 2 [[1, 0], [0, 1/100000000]]) (Arr1 [0, - (1/10)]) [0, - 1]"
    by simp
  with 1 2 show ?thesis by simp
qed

lemma slice_to_nat: "slice_to (int n) xs = take n xs"
  by (simp add: slice_to_def slice_index_def min_def)

lemma safer_qp_problem_square:
  "safer_qp_problem P q G h sw reg = Inr t \<Longrightarrow> shape1 P = Some (shape0 P)"
  by (cases P)
     (auto simp: safer_qp_problem_def Let_def zeros2_def eye_def vstack_def length_columns
           split: sum.splits if_splits)

text \<open>
  C5. Whenever the augmented problem is built and dispatched (the solver is a dense
  one) and the dispatched \<open>solve_qp\<close> returns a vector \<open>x\<close>, \<open>P\<close> is two-dimensional
  with \<open>n\<close> columns and \<open>solve_safer_qp\<close> returns exactly the first \<open>n\<close> components of
  \<open>x\<close>; when the dispatched \<open>solve_qp\<close> returns \<open>None\<close>, \<open>solve_safer_qp\<close> returns \<open>None\<close>
  and raises nothing.
\<close>

theorem safer_qp_returns_x_part:
  assumes "solver \<in> set (dense_solvers env)"
      and "safer_qp_problem P q G h sw reg = Inr (P2, q2, G2, h2, A2, b2)"
      and "solve_qp env (Dense P2) q2 (Some (Dense G2)) (Some h2) (Some (Dense A2)) (Some b2)
             None None solver initvals sym_proj False [] w = (r, w')"
  shows "(\<forall>x. r = Inr (Some x) \<longrightarrow>
            (\<exists>n. shape1 P = Some n
               \<and> solve_safer_qp env P q G h sw reg solver initvals sym_proj w
                 = (Inr (Some (take n x)), w')))
       \<and> (r = Inr None \<longrightarrow>
            solve_safer_qp env P q G h sw reg solver initvals sym_proj w = (Inr None, w'))"
  using assms safer_qp_problem_square [OF assms(2)]
  by (auto simp: solve_safer_qp_def slice_to_nat)

theorem safer_qp_returns_x_part_witness:
  "solve_safer_qp
     (env_of [(''quadprog'', logging_adapter ''quadprog'' (Inr (Some [1/10, 1/10, - (9/10), - (9/10)])))]
        [''quadprog''])
     (Arr2 2 [[1, 0], [0, 1]]) (Arr1 [0, 0]) (Arr2 2 [[1, 0], [0, 1]]) (Arr1 [1, 1])
     (1/10) (1/100000000) ''quadprog'' None False []
   = (Inr (Some [1/10, 1/10]),
      [(''quadprog'',
        Dense (Arr2 4 [[1, 0, 0, 0], [0, 1, 0, 0], [0, 0, 1/100000000, 0], [0, 0, 0, 1/100000000]]),
        Arr1 [0, 0, - (1/10), - (1/10)],
        Some (Dense (Arr2 4 [[0, 0, 1, 0], [0, 0, 0, 1]])), Some (Arr1 [0, 0]),
        Some (Dense (Arr2 4 [[1, 0, - 1, 0], [0, 1, 0, - 1]])), Some (Arr1 [1, 1]),
        [(''initvals'', PyNone), (''verbose'', PyBool False)])])"
proof -
  let ?env = "env_of [(''quadprog'', logging_adapter ''quadprog''
                (Inr (Some [1/10, 1/10, - (9/10), - (9/10)])))] [''quadprog'']"
  have d: "''quadprog'' \<in> set (dense_solvers ?env)"
    by (simp add: env_of_def)
  have b: "safer_qp_problem (Arr2 2 [[1, 0], [0, 1]]) (Arr1 [0, 0]) (Arr2 2 [[1, 0], [0, 1]])
        (Arr1 [1, 1]) (1/10) (1/100000000)
      = Inr (Arr2 4 [[1, 0, 0, 0], [0, 1, 0, 0], [0, 0, 1/100000000, 0], [0, 0, 0, 1/100000000]],
             Arr1 [0, 0, - (1/10), - (1/10)],
             Arr2 4 [[0, 0, 1, 0], [0, 0, 0, 1]], Arr1 [0, 0],
             Arr2 4 [[1, 0, - 1, 0], [0, 1, 0, - 1]], Arr1 [1, 1])"
    by (simp add: eval_arrays)
  have s: "solve_qp ?env
        (Dense (Arr2 4 [[1, 0, 0, 0], [0, 1, 0, 0], [0, 0, 1/100000000, 0], [0, 0, 0, 1/100000000]]))
        (Arr1 [0, 0, - (1/10), - (1/10)])
        (Some (Dense (Arr2 4 [[0, 0, 1, 0], [0, 0, 0, 1]]))) (Some (Arr1 [0, 0]))
        (Some (Dense (Arr2 4 [[1, 0, - 1, 0], [0, 1, 0, - 1]]))) (Some (Arr1 [1, 1]))
        None None ''quadprog'' None False False [] []
      = (Inr (Some [1/10, 1/10, - (9/10), - (9/10)]),
         [(''quadprog'',
        Dense (Arr2 4 [[1, 0, 0, 0], [0, 1, 0, 0], [0, 0, 1/100000000, 0], [0, 0, 0, 1/100000000]]),
        Arr1 [0, 0, - (1/10), - (1/10)],
        Some (Dense (Arr2 4 [[0, 0, 1, 0], [0, 0, 0, 1]])), Some (Arr1 [0, 0]),
        Some (Dense (Arr2 4 [[1, 0, - 1, 0], [0, 1, 0, - 1]])), Some (Arr1 [1, 1]),
        [(''initvals'', PyNone), (''verbose'', PyBool False)])])"
    by (simp add: eval_solve_qp)
  from safer_qp_returns_x_part [OF d b s] show ?thesis
    by simp
qed

text \<open>
  C6. Whenever \<open>solver\<close> is not among the dense solvers, \<open>solve_safer_qp\<close> fails its
  assertion: the outcome is the \<open>AssertionError\<close> whatever the arrays are (also arrays
  from which no augmented problem can be built), and the backend world is untouched,
  whatever the registry holds. This is the interpreter's default mode; under
  \<open>python -O\<close> assertions are not compiled.
\<close>

theorem safer_qp_requires_dense:
  "solver \<notin> set (dense_solvers env) \<Longrightarrow>
   solve_safer_qp env P q G h sw reg solver initvals sym_proj w =
     (Inl (Exn AssertionError ''only available for dense solvers, for now''), w)"
  by (simp add: solve_safer_qp_def)

theorem safer_qp_requires_dense_witness:
  "solve_safer_qp
     (env_of [(''quadprog'', logging_adapter ''quadprog'' (Inr (Some [0, 0]))),
              (''osqp'', logging_adapter ''osqp'' (Inr (Some [0, 0])))] [''quadprog''])
     (Arr2 1 [[1]]) (Arr1 [0]) (Arr2 1 [[1]]) (Arr1 [1]) (1/10) (1/100000000) ''osqp'' None False []
   = (Inl (Exn AssertionError ''only available for dense solvers, for now''), [])"
proof -
  have "''osqp'' \<notin> set (dense_solvers
     (env_of [(''quadprog'', logging_adapter ''quadprog'' (Inr (Some [0, 0]))),
              (''osqp'', logging_adapter ''osqp'' (Inr (Some [0, 0])))] [''quadprog'']))"
    by (simp add: env_of_def)
  from safer_qp_requires_dense [OF this] show ?thesis .
qed

section \<open>Properties of the dispatcher\<close>

lemma solve_qp_normalized:
  assumes "(if sym_proj then symmetric_part P else Inr P) = Inr P1"
      and "check_problem_constraints env (promote_row G) h (promote_row A) b = None"
      and "concatenate_bounds env (promote_row G) h lb ub = Inr (G2, h2)"
  shows "solve_qp env P q G h A b lb ub solver initvals sym_proj verbose kwargs w =
           (case solver_call env solver P1 q G2 h2 (promote_row A) b
                   (adapter_kwargs kwargs initvals verbose) w of
              (Inl e, w') \<Rightarrow>
                if exn_class e = KeyError then (Inl (not_available solver), w') else (Inl e, w')
            | (Inr x, w') \<Rightarrow> (Inr x, w'))"
  using assms unfolding solve_qp_def by (simp add: Let_def)

text \<open>
  C2, as stated, fails in both directions. With \<open>sym_proj\<close> set and a \<open>2 \<times> 3\<close> array
  \<open>P\<close>, line 118 raises numpy's \<open>ValueError\<close> before the registry is looked at, so an
  absent solver does not give \<open>SolverNotFound\<close>: normalization comes first, by design.
  And the \<open>try\<close> of lines 127-130 spans the adapter's call as well as the lookup, so a
  registered adapter that raises \<open>KeyError\<close> is reported as \<open>SolverNotFound\<close>.
\<close>

theorem solve_qp_solver_not_found_counterexample:
  "solve_function (env_of [(''quadprog'', logging_adapter ''quadprog'' (Inr (Some [0, 0])))] [])
     ''nonexistent'' = None
   \<and> solve_qp (env_of [(''quadprog'', logging_adapter ''quadprog'' (Inr (Some [0, 0])))] [])
       (Dense (Arr2 3 [[1, 2, 3], [4, 5, 6]])) (Arr1 [0, 0]) None None None None None None
       ''nonexistent'' None True False [] []
     = (Inl (Exn ValueError ''operands could not be broadcast together''), [])
   \<and> solve_function
       (env_of [(''quadprog'', logging_adapter ''quadprog'' (Inl (Exn KeyError ''eps_abs'')))] [])
       ''quadprog''
     = Some (logging_adapter ''quadprog'' (Inl (Exn KeyError ''eps_abs'')))
   \<and> solve_qp
       (env_of [(''quadprog'', logging_adapter ''quadprog'' (Inl (Exn KeyError ''eps_abs'')))] [])
       (Dense (Arr2 1 [[1]])) (Arr1 [0]) None None None None None None
       ''quadprog'' None False False [] []
     = (Inl (not_available ''quadprog''),
        [(''quadprog'', Dense (Arr2 1 [[1]]), Arr1 [0], None, None, None, None,
          [(''initvals'', PyNone), (''verbose'', PyBool False)])])"
  by (simp add: eval_solve_qp add_rows_def broadcast_dim_def)

text \<open>
  C2, amended. Whenever normalization succeeds (symmetrization, validation and bound
  folding raise nothing): if \<open>solver\<close> is absent from the registry, \<open>solve_qp\<close> raises
  \<open>SolverNotFound\<close> and the backend world is untouched; if \<open>solver\<close> is registered,
  whatever its adapter returns or raises, other than a \<open>KeyError\<close>, is the outcome of
  \<open>solve_qp\<close> unchanged. What happens to an adapter's \<open>KeyError\<close> is left open here.
\<close>

theorem solve_qp_solver_not_found:
  assumes "(if sym_proj then symmetric_part P else Inr P) = Inr P1"
      and "check_problem_constraints env (promote_row G) h (promote_row A) b = None"
      and "concatenate_bounds env (promote_row G) h lb ub = Inr (G2, h2)"
  shows "(solve_function env solver = None \<longrightarrow>
            solve_qp env P q G h A b lb ub solver initvals sym_proj verbose kwargs w =
              (Inl (not_available solver), w))
       \<and> (\<forall>f r w'. solve_function env solver = Some f
             \<and> f P1 q G2 h2 (promote_row A) b (adapter_kwargs kwargs initvals verbose) w = (r, w')
             \<and> (\<forall>e. r = Inl e \<longrightarrow> exn_class e \<noteq> KeyError)
           \<longrightarrow> solve_qp env P q G h A b lb ub solver initvals sym_proj verbose kwargs w = (r, w'))"
  unfolding solve_qp_normalized [OF assms]
  by (auto simp: solver_call_def dict_getitem_def split: sum.splits)

theorem solve_qp_solver_not_found_witness:
  "solve_qp (env_of [(''osqp'', logging_adapter ''osqp''
               (Inl (Exn (OtherError ''RuntimeError'') ''backend failed'')))] [])
     (Dense (Arr2 1 [[1]])) (Arr1 [0]) None None None None None None
     ''nonexistent'' None False False [] []
   = (Inl (Exn SolverNotFound (''solver '' @ [CHR 0x27] @ ''nonexistent'' @ [CHR 0x27]
            @ '' is not available'')), [])
   \<and> solve_qp (env_of [(''osqp'', logging_adapter ''osqp''
               (Inl (Exn (OtherError ''RuntimeError'') ''backend failed'')))] [])
     (Dense (Arr2 1 [[1]])) (Arr1 [0]) None None None None None None
     ''osqp'' None False False [] []
   = (Inl (Exn (OtherError ''RuntimeError'') ''backend failed''),
      [(''osqp'', Dense (Arr2 1 [[1]]), Arr1 [0], None, None, None, None,
        [(''initvals'', PyNone), (''verbose'', PyBool False)])])"
proof -
  let ?f = "logging_adapter ''osqp'' (Inl (Exn (OtherError ''RuntimeError'') ''backend failed''))"
  let ?env = "env_of [(''osqp'', ?f)] []"
  have n: "(if False then symmetric_part (Dense (Arr2 1 [[1]])) else Inr (Dense (Arr2 1 [[1]])))
           = Inr (Dense (Arr2 1 [[1]]))"
    by simp
  have c: "check_problem_constraints ?env (promote_row None) None (promote_row None) None = None"
    by (simp add: env_of_def check_problem_constraints_spec_def rows_disagree_def)
  have b: "concatenate_bounds ?env (promote_row None) None None None = Inr (None, None)"
    by (simp add: env_of_def concatenate_bounds_spec_def)
  note t = solve_qp_solver_not_found [OF n c b]
  have absent: "solve_function ?env ''nonexistent'' = None"
    by (simp add: env_of_def)
  have present: "solve_function ?env ''osqp'' = Some ?f"
    by (simp add: env_of_def)
  have run: "?f (Dense (Arr2 1 [[1]])) (Arr1 [0]) None None (promote_row None) None
               (adapter_kwargs [] None False) []
             = (Inl (Exn (OtherError ''RuntimeError'') ''backend failed''),
                [(''osqp'', Dense (Arr2 1 [[1]]), Arr1 [0], None, None, None, None,
                  [(''initvals'', PyNone), (''verbose'', PyBool False)])])"
    by (simp add: logging_adapter_def adapter_kwargs_def opt_array_def)
  from t [of "''nonexistent''" "Arr1 [0]" None False "[]" "[]"] absent
  have 1: "solve_qp ?env (Dense (Arr2 1 [[1]])) (Arr1 [0]) None None None None None None
     ''nonexistent'' None False False [] [] = (Inl (not_available ''nonexistent''), [])"
    by blast
  from t [of "''osqp''" "Arr1 [0]" None False "[]" "[]"] present run
  have 2: "solve_qp ?env (Dense (Arr2 1 [[1]])) (Arr1 [0]) None None None None None None
     ''osqp'' None False False [] []
     = (Inl (Exn (OtherError ''RuntimeError'') ''backend failed''),
      [(''osqp'', Dense (Arr2 1 [[1]]), Arr1 [0], None, None, None, None,
        [(''initvals'', PyNone), (''verbose'', PyBool False)])])"
    by (auto simp del: promote_row.simps)
  from 1 2 show ?thesis by (simp add: not_available_def)
qed










lemma list_all2_pos:
  "list_all2 (\<le>) (map (\<lambda>y. 1 * y) x) (map (\<lambda>y. 1 * y) v) \<longleftrightarrow> list_all2 (\<le>) x (v::real list)"
  by simp


lemma append_bound_shape:
  "append_bound s b (G, h) = Inr (G2, h2) \<Longrightarrow> b = Some l \<Longrightarrow> \<exists>v. l = Arr1 v"
  by (cases "(s, b, (G, h))" rule: append_bound.cases) (auto split: if_splits)
















section \<open>Properties of the PIQP adapter\<close>

lemma select_backend_str:
  "select_backend (PyStr t) u =
     (if t = ''dense'' then Inr DenseSolver
      else if t = ''sparse'' then Inr SparseSolver
      else Inl (Exn ParamError (''Unknown PIQP backend '' @ [CHR 0x22] @ py_str (PyStr t))))"
  by (simp add: select_backend_def)

lemma select_backend_other:
  "backend \<noteq> PyNone \<Longrightarrow> \<forall>t. backend \<noteq> PyStr t \<Longrightarrow> \<forall>a. backend \<noteq> PyArray a \<Longrightarrow>
   select_backend backend u
   = Inl (Exn ParamError (''Unknown PIQP backend '' @ [CHR 0x22] @ py_str backend))"
  by (cases backend) (simp_all add: select_backend_def)

lemma use_csc_representation:
  "use_csc p \<longleftrightarrow> \<not> ((\<exists>a. prob_P p = Dense a)
     \<and> (prob_G p = None \<or> (\<exists>g. prob_G p = Some (Dense g)))
     \<and> (prob_A p = None \<or> (\<exists>a. prob_A p = Some (Dense a))))"
proof -
  have P: "is_ndarray M \<longleftrightarrow> (\<exists>a. M = Dense a)" for M
    by (cases M) simp_all
  have O: "given_not_ndarray M \<longleftrightarrow> \<not> (M = None \<or> (\<exists>a. M = Some (Dense a)))" for M
    by (cases M) (simp_all add: given_not_ndarray_def P)
  show ?thesis by (simp only: use_csc_def P O) blast
qed

lemma select_backend_non_array:
  assumes "\<forall>a. backend \<noteq> PyArray a"
  shows "((\<exists>e. select_backend backend u = Inl e)
            \<longleftrightarrow> backend \<notin> {PyNone, PyStr ''dense'', PyStr ''sparse''})
         \<and> (\<forall>e. select_backend backend u = Inl e \<longrightarrow> exn_class e = ParamError)"
proof (cases "backend = PyNone")
  case True
  then show ?thesis by (simp add: select_backend_def)
next
  case False
  show ?thesis
  proof (cases "\<exists>t. backend = PyStr t")
    case True
    then obtain t where t: "backend = PyStr t" by blast
    show ?thesis unfolding t select_backend_str by simp
  next
    case no: False
    from select_backend_other [of backend u] False no assms
    have "select_backend backend u
      = Inl (Exn ParamError (''Unknown PIQP backend '' @ [CHR 0x22] @ py_str backend))"
      by blast
    moreover from no have "backend \<noteq> PyStr ''dense''" "backend \<noteq> PyStr ''sparse''" by blast+
    ultimately show ?thesis using False by simp
  qed
qed

text \<open>
  C8, as stated, speaks of every \<open>backend\<close> argument. For a numpy array of two
  elements, \<open>backend == "dense"\<close> is an array and the \<open>if\<close> of line 61 raises
  \<open>ValueError\<close>, not \<open>ParamError\<close>. An array is outside the annotated type
  \<open>Optional[str]\<close> of the parameter.
\<close>

theorem select_backend_cases_counterexample:
  "select_backend (PyArray (Arr1 [1, 2])) False
   = Inl (Exn ValueError ''The truth value of an array is ambiguous'')"
  by (simp add: select_backend_def)

text \<open>
  C8, amended. For every \<open>backend\<close> argument that is not a numpy array (so for every
  value of the annotated type \<open>Optional[str]\<close>), the backend selection of the PIQP
  adapter raises exactly when \<open>backend\<close> is outside \<open>None\<close>, \<open>"dense"\<close>, \<open>"sparse"\<close>, and
  what it raises is a \<open>ParamError\<close>. \<open>"dense"\<close> selects the dense solver and \<open>"sparse"\<close>
  the sparse one; \<open>None\<close> selects by the representations of the problem's matrices:
  dense when \<open>P\<close> is an \<open>ndarray\<close> and each of \<open>G\<close>, \<open>A\<close> is absent or an \<open>ndarray\<close>,
  sparse otherwise.
\<close>

theorem select_backend_cases:
  "select_backend PyNone (use_csc p) =
     Inr (if (\<exists>a. prob_P p = Dense a)
             \<and> (prob_G p = None \<or> (\<exists>g. prob_G p = Some (Dense g)))
             \<and> (prob_A p = None \<or> (\<exists>a. prob_A p = Some (Dense a)))
          then DenseSolver else SparseSolver)
   \<and> select_backend (PyStr ''dense'') u = Inr DenseSolver
   \<and> select_backend (PyStr ''sparse'') u = Inr SparseSolver
   \<and> ((\<forall>a. backend \<noteq> PyArray a) \<longrightarrow>
         ((\<exists>e. select_backend backend u = Inl e)
            \<longleftrightarrow> backend \<notin> {PyNone, PyStr ''dense'', PyStr ''sparse''})
         \<and> (\<forall>e. select_backend backend u = Inl e \<longrightarrow> exn_class e = ParamError))"
proof -
  have 1: "select_backend PyNone (use_csc p) =
     Inr (if (\<exists>a. prob_P p = Dense a)
             \<and> (prob_G p = None \<or> (\<exists>g. prob_G p = Some (Dense g)))
             \<and> (prob_A p = None \<or> (\<exists>a. prob_A p = Some (Dense a)))
          then DenseSolver else SparseSolver)"
    unfolding use_csc_representation by (simp add: select_backend_def)
  have 2: "select_backend (PyStr ''dense'') u = Inr DenseSolver"
    by (simp add: select_backend_str)
  have 3: "select_backend (PyStr ''sparse'') u = Inr SparseSolver"
    by (simp add: select_backend_str)
  have 4: "(\<forall>a. backend \<noteq> PyArray a) \<longrightarrow>
         ((\<exists>e. select_backend backend u = Inl e)
            \<longleftrightarrow> backend \<notin> {PyNone, PyStr ''dense'', PyStr ''sparse''})
         \<and> (\<forall>e. select_backend backend u = Inl e \<longrightarrow> exn_class e = ParamError)"
  proof (rule impI)
    assume "\<forall>a. backend \<noteq> PyArray a"
    from select_backend_non_array [OF this] show
      "((\<exists>e. select_backend backend u = Inl e)
            \<longleftrightarrow> backend \<notin> {PyNone, PyStr ''dense'', PyStr ''sparse''})
         \<and> (\<forall>e. select_backend backend u = Inl e \<longrightarrow> exn_class e = ParamError)" .
  qed
  show ?thesis by (intro conjI) (rule 1, rule 2, rule 3, rule 4)
qed

theorem select_backend_cases_witness:
  "select_backend (PyStr ''Dense'') False
     = Inl (Exn ParamError (''Unknown PIQP backend '' @ [CHR 0x22] @ ''Dense''))
   \<and> select_backend PyNone
       (use_csc \<lparr>prob_P = Dense (Arr2 1 [[1]]), prob_q = Arr1 [0],
                 prob_G = Some (Sparse 1 [[1]]), prob_h = Some (Arr1 [1]),
                 prob_A = None, prob_b = None, prob_lb = None, prob_ub = None\<rparr>)
     = Inr SparseSolver
   \<and> select_backend (PyStr ''dense'') False = Inr DenseSolver"
proof -
  let ?p = "\<lparr>prob_P = Dense (Arr2 1 [[1]]), prob_q = Arr1 [0],
             prob_G = Some (Sparse 1 [[1]]), prob_h = Some (Arr1 [1]),
             prob_A = None, prob_b = None, prob_lb = None, prob_ub = None\<rparr>"
  note t = select_backend_cases [of ?p False "PyStr ''Dense''"]
  have str: "\<forall>a. PyStr ''Dense'' \<noteq> PyArray a" by simp
  have out: "PyStr ''Dense'' \<notin> {PyNone, PyStr ''dense'', PyStr ''sparse''}" by simp
  from t [THEN conjunct2, THEN conjunct2, THEN conjunct2] str out
  obtain e where e: "select_backend (PyStr ''Dense'') False = Inl e"
    and ec: "exn_class e = ParamError"
    by blast
  have 1: "select_backend (PyStr ''Dense'') False
     = Inl (Exn ParamError (''Unknown PIQP backend '' @ [CHR 0x22] @ ''Dense''))"
    by (simp add: select_backend_str)
  from t [THEN conjunct1]
  have 2: "select_backend PyNone (use_csc ?p) = Inr SparseSolver" by simp
  note 3 = t [THEN conjunct2, THEN conjunct1]
  from 1 2 3 e ec show ?thesis by simp
qed

lemma bind_four_positional:
  "\<exists>msg. bind_arguments [''problem'', ''verbose'', ''backend''] [a1, a2, a3, a4] kws
         = Inl (Exn TypeError msg)"
  by (simp add: bind_arguments_def)

lemma call_four_positional:
  "\<exists>msg. call_piqp_solve_problem env [a1, a2, a3, a4] kws w = (Inl (Exn TypeError msg), w)"
  using bind_four_positional [of a1 a2 a3 a4 kws]
  by (auto simp: call_piqp_solve_problem_def)

text \<open>
  C3, as stated, says \<open>TypeError\<close> for every input. \<open>piqp_solve_qp\<close> first constructs
  the \<open>Problem\<close> (line 254), and where that constructor raises, its exception is the
  outcome: with the constructor of the spec, \<open>G\<close> given without \<open>h\<close> is a
  \<open>ProblemError\<close>.
\<close>

theorem piqp_solve_qp_type_error_counterexample:
  "piqp_solve_qp (piqp_env_of 1 \<lparr>res_x = [0], res_y = [], res_z = [0], res_info = ''''\<rparr>)
     (Dense (Arr2 1 [[1]])) (Arr1 [0]) (Some (Dense (Arr2 1 [[1]]))) None None None None None
     None False None [] []
   = (Inl (Exn ProblemError ''mismatched constraint pair''), [])"
  by (simp add: piqp_solve_qp_def piqp_env_of_def Problem_spec_def)

text \<open>
  C3, amended. For every input on which the \<open>Problem\<close> constructor (line 254) returns,
  \<open>piqp_solve_qp\<close> raises a \<open>TypeError\<close> before any backend setup or solve: it passes
  four positional arguments to \<open>piqp_solve_problem\<close>, which has three positional
  parameters. For every input on which the constructor raises, that very exception
  is what \<open>piqp_solve_qp\<close> raises, again before any backend setup or solve. So for
  every input \<open>piqp_solve_qp\<close> raises, the backend world is untouched whatever the
  \<open>piqp\<close> library does in \<open>setup\<close> and \<open>solve\<close>, no solution vector is returned, and
  \<open>initvals\<close> never reaches a solver.
\<close>

theorem piqp_solve_qp_type_error:
  "(\<forall>p. Problem env P q G h A b lb ub = Inr p \<longrightarrow>
        (\<exists>msg. piqp_solve_qp env P q G h A b lb ub initvals verbose backend kwargs w
               = (Inl (Exn TypeError msg), w)))
   \<and> (\<forall>e. Problem env P q G h A b lb ub = Inl e \<longrightarrow>
        piqp_solve_qp env P q G h A b lb ub initvals verbose backend kwargs w = (Inl e, w))
   \<and> (\<exists>e. fst (piqp_solve_qp env P q G h A b lb ub initvals verbose backend kwargs w) = Inl e)
   \<and> snd (piqp_solve_qp env P q G h A b lb ub initvals verbose backend kwargs w) = w"
proof (cases "Problem env P q G h A b lb ub")
  case (Inl e)
  then show ?thesis by (simp add: piqp_solve_qp_def)
next
  case (Inr p)
  obtain msg where
    "call_piqp_solve_problem env [PyProblem p, opt_array initvals, PyBool verbose, opt_str backend]
       kwargs w = (Inl (Exn TypeError msg), w)"
    using call_four_positional [of env "PyProblem p" "opt_array initvals" "PyBool verbose"
        "opt_str backend" kwargs w]
    by blast
  with Inr show ?thesis by (simp add: piqp_solve_qp_def)
qed

theorem piqp_solve_qp_type_error_witness:
  "piqp_solve_qp (piqp_env_of 1 \<lparr>res_x = [0], res_y = [], res_z = [0], res_info = ''''\<rparr>)
     (Dense (Arr2 1 [[1]])) (Arr1 [0]) (Some (Dense (Arr2 1 [[1]]))) (Some (Arr1 [1])) None None
     None None (Some (Arr1 [0])) False None [] []
   = (Inl (Exn TypeError ''takes fewer positional arguments than were given''), [])
   \<and> piqp_solve_qp (piqp_env_of 1 \<lparr>res_x = [0], res_y = [], res_z = [0], res_info = ''''\<rparr>)
     (Dense (Arr2 1 [[1]])) (Arr1 [0]) None None None (Some (Arr1 [1])) None None
     (Some (Arr1 [0])) False None [] []
   = (Inl (Exn ProblemError ''mismatched constraint pair''), [])"
proof -
  let ?env = "piqp_env_of 1 \<lparr>res_x = [0], res_y = [], res_z = [0], res_info = ''''\<rparr>"
  have "\<exists>p. Problem ?env (Dense (Arr2 1 [[1]])) (Arr1 [0]) (Some (Dense (Arr2 1 [[1]])))
          (Some (Arr1 [1])) None None None None = Inr p"
    by (simp add: piqp_env_of_def Problem_spec_def)
  with piqp_solve_qp_type_error [of ?env "Dense (Arr2 1 [[1]])" "Arr1 [0]"
      "Some (Dense (Arr2 1 [[1]]))" "Some (Arr1 [1])" None None None None "Some (Arr1 [0])"
      False None "[]" "[]"]
  obtain msg where m: "piqp_solve_qp ?env (Dense (Arr2 1 [[1]])) (Arr1 [0])
      (Some (Dense (Arr2 1 [[1]]))) (Some (Arr1 [1])) None None
      None None (Some (Arr1 [0])) False None [] [] = (Inl (Exn TypeError msg), [])"
    by blast
  then have 1: "piqp_solve_qp ?env (Dense (Arr2 1 [[1]])) (Arr1 [0])
      (Some (Dense (Arr2 1 [[1]]))) (Some (Arr1 [1])) None None
      None None (Some (Arr1 [0])) False None [] []
      = (Inl (Exn TypeError ''takes fewer positional arguments than were given''), [])"
    by (simp add: piqp_solve_qp_def piqp_env_of_def Problem_spec_def call_piqp_solve_problem_def
        bind_arguments_def)
  have "Problem ?env (Dense (Arr2 1 [[1]])) (Arr1 [0]) None None None (Some (Arr1 [1])) None None
        = Inl (Exn ProblemError ''mismatched constraint pair'')"
    by (simp add: piqp_env_of_def Problem_spec_def)
  with piqp_solve_qp_type_error [of ?env "Dense (Arr2 1 [[1]])" "Arr1 [0]"
      None None None "Some (Arr1 [1])" None None "Some (Arr1 [0])" False None "[]" "[]"]
  have 2: "piqp_solve_qp ?env (Dense (Arr2 1 [[1]])) (Arr1 [0]) None None None (Some (Arr1 [1]))
      None None (Some (Arr1 [0])) False None [] []
      = (Inl (Exn ProblemError ''mismatched constraint pair''), [])"
    by blast
  from 1 2 show ?thesis by simp
qed






section \<open>Properties of the dispatcher over the store\<close>

lemma keeps_refl: "a < length st \<Longrightarrow> keeps a st st"
  by (simp add: keeps_def)

lemma keeps_trans: "keeps a s s' \<Longrightarrow> keeps a s' s'' \<Longrightarrow> keeps a s s''"
  by (simp add: keeps_def)

lemma keeps_length: "keeps a s s' \<Longrightarrow> a < length s'"
  by (simp add: keeps_def)

lemma new_array_keeps: "a < length st \<Longrightarrow> keeps a st (snd (new_array v st))"
  by (cases v) (simp_all add: keeps_def nth_append)

lemma new_array_addr: "ref_addr (fst (new_array v st)) = length st"
  by (cases v) simp_all

lemma new_matrix_dense:
  "new_matrix (Dense v) st = (DenseRef (fst (new_array v st)), snd (new_array v st))"
  by (simp add: case_prod_beta)

lemma new_matrix_keeps: "a < length st \<Longrightarrow> keeps a st (snd (new_matrix M st))"
  using new_array_keeps [of a st]
  by (cases M) (simp_all add: case_prod_beta keeps_def nth_append)

lemma new_matrix_addr: "mref_addr (fst (new_matrix M st)) = length st"
  by (cases M) (simp_all add: case_prod_beta new_array_addr)

lemma symmetrize_st_fresh:
  "symmetrize_st P st = Inr (P1, st1) \<Longrightarrow>
   mref_addr P1 = length st \<and> (\<forall>a<length st. keeps a st st1)"
  using new_matrix_addr new_matrix_keeps
  by (auto simp: symmetrize_st_def split: sum.splits) (metis fst_conv snd_conv)+

lemma keeps_load: "keeps (ref_addr r) st st' \<Longrightarrow> load st' r = load st r"
  by (cases r) (simp_all add: keeps_def rows_at_def)

lemma keeps_load_matrix: "keeps (mref_addr M) st st' \<Longrightarrow> load_matrix st' M = load_matrix st M"
  using keeps_load by (cases M) (simp_all add: keeps_def rows_at_def)

lemma solve_qp_st_keeps:
  assumes a: "a < length st"
    and chk: "\<forall>G h A b s. a < length s \<longrightarrow>
               keeps a s (snd (check_problem_constraints_st env G h A b s))"
    and fold: "\<forall>G h lb ub s. a < length s \<longrightarrow>
               keeps a s (snd (concatenate_bounds_st env G h lb ub s))"
    and adp: "\<forall>f P q G h A b kw s w. solve_function_st env solver = Some f \<and> a < length s \<longrightarrow>
               keeps a s (fst (snd (f P q G h A b kw s w)))"
  shows "keeps a st
           (fst (snd (solve_qp_st env P q G h A b lb ub solver initvals sym_proj verbose kwargs
              st w)))"
proof (cases "if sym_proj then symmetrize_st P st else Inr (P, st)")
  case (Inl e)
  then show ?thesis using a by (simp add: solve_qp_st_def keeps_refl)
next
  case (Inr p)
  obtain P1 st1 where p: "p = (P1, st1)" by (cases p)
  have k1: "keeps a st st1"
    using Inr p a symmetrize_st_fresh [of P st P1 st1] by (auto simp: keeps_refl split: if_splits)
  let ?A1 = "promote_row_st st1 A" and ?G1 = "promote_row_st st1 G"
  obtain c st2 where c: "check_problem_constraints_st env ?G1 h ?A1 b st1 = (c, st2)"
    by (cases "check_problem_constraints_st env ?G1 h ?A1 b st1")
  have k2: "keeps a st st2"
    using chk [rule_format, OF keeps_length [OF k1], of ?G1 h ?A1 b] c k1
    by (auto intro: keeps_trans)
  show ?thesis
  proof (cases c)
    case (Some e)
    then show ?thesis using Inr p c k2 by (simp add: solve_qp_st_def Let_def)
  next
    case None
    obtain d st3 where d: "concatenate_bounds_st env ?G1 h lb ub st2 = (d, st3)"
      by (cases "concatenate_bounds_st env ?G1 h lb ub st2")
    have k3: "keeps a st st3"
      using fold [rule_format, OF keeps_length [OF k2], of ?G1 h lb ub] d k2
      by (auto intro: keeps_trans)
    show ?thesis
    proof (cases d)
      case (Inl e)
      then show ?thesis using Inr p c None d k3 by (simp add: solve_qp_st_def Let_def)
    next
      case (Inr Gh)
      obtain G2 h2 where Gh: "Gh = (G2, h2)" by (cases Gh)
      let ?kw = "adapter_kwargs_st kwargs initvals verbose"
      have k4: "keeps a st (fst (snd (solver_call_st env solver P1 q G2 h2 ?A1 b ?kw st3 w)))"
      proof (cases "solve_function_st env solver")
        case None
        then show ?thesis using k3 by (simp add: solver_call_st_def dict_getitem_def)
      next
        case (Some f)
        then show ?thesis
          using adp [rule_format, of f st3 P1 q G2 h2 ?A1 b ?kw w] k3 keeps_length [OF k3]
          by (auto simp: solver_call_st_def dict_getitem_def intro: keeps_trans)
      qed
      obtain r st' w' where
        r: "solver_call_st env solver P1 q G2 h2 ?A1 b ?kw st3 w = (r, st', w')"
        by (cases "solver_call_st env solver P1 q G2 h2 ?A1 b ?kw st3 w")
      with k4 have "keeps a st st'" by simp
      then show ?thesis
        using \<open>(if sym_proj then symmetrize_st P st else Inr (P, st)) = Inr p\<close> p c None d Inr Gh r
        by (cases r) (simp_all add: solve_qp_st_def Let_def)
    qed
  qed
qed

lemma reading_check_keeps:
  "a < length s \<Longrightarrow> keeps a s (snd (reading_check chk G h A b s))"
  by (simp add: reading_check_def keeps_def)

lemma new_array_opt_keeps: "a < length st \<Longrightarrow> keeps a st (snd (new_array_opt v st))"
  by (cases v) (simp_all add: keeps_refl new_array_keeps)

lemma new_matrix_opt_keeps: "a < length st \<Longrightarrow> keeps a st (snd (new_matrix_opt M st))"
  by (cases M) (simp_all add: keeps_refl new_matrix_keeps)

lemma reading_fold_keeps:
  "a < length s \<Longrightarrow> keeps a s (snd (reading_fold cb G h lb ub s))"
proof -
  assume a: "a < length s"
  have "keeps a s (snd (new_array_opt hv (snd (new_matrix_opt Gv s))))" for Gv hv
    using keeps_trans [OF new_matrix_opt_keeps [OF a, of Gv]
        new_array_opt_keeps [OF keeps_length [OF new_matrix_opt_keeps [OF a, of Gv]], of hv]] .
  then show ?thesis
    using a by (auto simp: reading_fold_def keeps_refl case_prod_beta Let_def split: sum.splits)
qed

lemma reading_adapter_keeps:
  "a < length s \<Longrightarrow> keeps a s (fst (snd (reading_adapter f P q G h A b kw s w)))"
  by (simp add: reading_adapter_def keeps_def case_prod_beta)

text \<open>
  C9, as stated, speaks of every call. \<open>solve_qp\<close> hands the caller's own \<open>q\<close> to the
  adapter (line 128), with no copy: when the registered adapter negates its \<open>q\<close> in
  place, the caller's \<open>q = [1, 1]\<close> holds \<open>[-1, -1]\<close> after \<open>solve_qp\<close> returns.
\<close>

theorem solve_qp_writes_no_caller_array_counterexample:
  "load [[2], [1, 1]] (Ref1 1) = Arr1 [1, 1]
   \<and> load (fst (snd (solve_qp_st
        \<lparr>check_problem_constraints_st = reading_check check_problem_constraints_spec,
         concatenate_bounds_st = reading_fold concatenate_bounds_spec,
         solve_function_st = map_of [(''inplace'', negating_adapter)]\<rparr>
        (DenseRef (Ref2 0 1 1)) (Ref1 1) None None None None None None ''inplace'' None
        False False [] [[2], [1, 1]] ()))) (Ref1 1)
     = Arr1 [- 1, - 1]"
  by (simp add: solve_qp_st_def solver_call_st_def dict_getitem_def reading_check_def
      reading_fold_def check_problem_constraints_spec_def rows_disagree_def
      concatenate_bounds_spec_def negating_adapter_def Let_def)

text \<open>
  C9, amended. The steps of \<open>solve_qp\<close> itself write into no array that exists when
  it is called: symmetrization stores its result in a new array, at a fresh address;
  shape coercion makes a new array object over the same buffer, with the same
  elements; nothing else touches the store. Hence, for every buffer \<open>a\<close> allocated at
  the call (so for each of the caller's \<open>P\<close>, \<open>q\<close>, \<open>G\<close>, \<open>h\<close>, \<open>A\<close>, \<open>b\<close>, \<open>lb\<close>, \<open>ub\<close>),
  if the validation helper, the bound-folding helper and the adapter registered under
  \<open>solver\<close> do not write into \<open>a\<close>, then after \<open>solve_qp\<close> returns or raises every
  array over \<open>a\<close> holds the same elements as before the call.
\<close>

theorem solve_qp_writes_no_caller_array:
  assumes "a < length st"
    and "\<forall>G h A b s. a < length s \<longrightarrow>
           keeps a s (snd (check_problem_constraints_st env G h A b s))"
    and "\<forall>G h lb ub s. a < length s \<longrightarrow>
           keeps a s (snd (concatenate_bounds_st env G h lb ub s))"
    and "\<forall>f P q G h A b kw s w. solve_function_st env solver = Some f \<and> a < length s \<longrightarrow>
           keeps a s (fst (snd (f P q G h A b kw s w)))"
  shows "keeps a st (fst (snd (solve_qp_st env P q G h A b lb ub solver initvals sym_proj
                       verbose kwargs st w)))
    \<and> (\<forall>r. ref_addr r = a \<longrightarrow>
          load (fst (snd (solve_qp_st env P q G h A b lb ub solver initvals sym_proj
                       verbose kwargs st w))) r = load st r)
    \<and> (\<forall>M. mref_addr M = a \<longrightarrow>
          load_matrix (fst (snd (solve_qp_st env P q G h A b lb ub solver initvals sym_proj
                       verbose kwargs st w))) M = load_matrix st M)
    \<and> (\<forall>P1 st1. symmetrize_st P st = Inr (P1, st1) \<longrightarrow>
          mref_addr P1 = length st \<and> keeps a st st1)
    \<and> (\<forall>v. promote_row_st st (Some (DenseRef (Ref1 v)))
               = Some (DenseRef (Ref2 v 1 (length (st ! v))))
            \<and> load st (Ref2 v 1 (length (st ! v))) = Arr2 (length (st ! v)) [st ! v])"
proof -
  note k = solve_qp_st_keeps [OF assms, of P q G h A b lb ub initvals sym_proj verbose kwargs w]
  have "load st (Ref2 v 1 (length (st ! v))) = Arr2 (length (st ! v)) [st ! v]" for v
    by (simp add: rows_at_def)
  with k keeps_load keeps_load_matrix symmetrize_st_fresh assms(1) show ?thesis
    by (auto simp del: load.simps)
qed

lemma store_env_of_check_keeps:
  "\<forall>G h A b s. a < length s \<longrightarrow>
     keeps a s (snd (check_problem_constraints_st (store_env_of env) G h A b s))"
  by (simp add: store_env_of_def reading_check_keeps)

lemma store_env_of_fold_keeps:
  "\<forall>G h lb ub s. a < length s \<longrightarrow>
     keeps a s (snd (concatenate_bounds_st (store_env_of env) G h lb ub s))"
  by (simp add: store_env_of_def reading_fold_keeps)

lemma store_env_of_adapter_keeps:
  "\<forall>f P q G h A b kw s w. solve_function_st (store_env_of env) solver = Some f \<and> a < length s \<longrightarrow>
     keeps a s (fst (snd (f P q G h A b kw s w)))"
  by (auto simp: store_env_of_def reading_adapter_keeps)

theorem solve_qp_writes_no_caller_array_witness:
  "load_matrix (fst (snd (solve_qp_st
      (store_env_of (env_of [(''quadprog'', logging_adapter ''quadprog'' (Inr (Some [1/2, 1/2])))] []))
      (DenseRef (Ref2 0 2 2)) (Ref1 1) (Some (DenseRef (Ref1 2))) (Some (Ref1 3)) None None
      (Some (Ref1 4)) None ''quadprog'' None True False []
      [[1, 2, 4, 3], [0, 0], [1, 1], [1], [0, 0]] [])))
     (DenseRef (Ref2 0 2 2))
   = Dense (Arr2 2 [[1, 2], [4, 3]])
   \<and> load (fst (snd (solve_qp_st
      (store_env_of (env_of [(''quadprog'', logging_adapter ''quadprog'' (Inr (Some [1/2, 1/2])))] []))
      (DenseRef (Ref2 0 2 2)) (Ref1 1) (Some (DenseRef (Ref1 2))) (Some (Ref1 3)) None None
      (Some (Ref1 4)) None ''quadprog'' None True False []
      [[1, 2, 4, 3], [0, 0], [1, 1], [1], [0, 0]] [])))
     (Ref1 2)
   = Arr1 [1, 1]"
proof -
  let ?env = "store_env_of (env_of [(''quadprog'',
                logging_adapter ''quadprog'' (Inr (Some [1/2, 1/2])))] [])"
  let ?st = "[[1, 2, 4, 3], [0, 0], [1, 1], [1], [0, 0]] :: store"
  have 0: "0 < length ?st" and 2: "2 < length ?st" by simp_all
  note P = solve_qp_writes_no_caller_array [where a = 0 and st = ?st and env = ?env
      and solver = "''quadprog''" and P = "DenseRef (Ref2 0 2 2)" and q = "Ref1 1"
      and G = "Some (DenseRef (Ref1 2))" and h = "Some (Ref1 3)" and A = None and b = None
      and lb = "Some (Ref1 4)" and ub = None and initvals = None and sym_proj = True
      and verbose = False and kwargs = "[]" and w = "[]",
      OF 0 store_env_of_check_keeps store_env_of_fold_keeps store_env_of_adapter_keeps]
  note G = solve_qp_writes_no_caller_array [where a = 2 and st = ?st and env = ?env
      and solver = "''quadprog''" and P = "DenseRef (Ref2 0 2 2)" and q = "Ref1 1"
      and G = "Some (DenseRef (Ref1 2))" and h = "Some (Ref1 3)" and A = None and b = None
      and lb = "Some (Ref1 4)" and ub = None and initvals = None and sym_proj = True
      and verbose = False and kwargs = "[]" and w = "[]",
      OF 2 store_env_of_check_keeps store_env_of_fold_keeps store_env_of_adapter_keeps]
  have "load_matrix (fst (snd (solve_qp_st ?env
      (DenseRef (Ref2 0 2 2)) (Ref1 1) (Some (DenseRef (Ref1 2))) (Some (Ref1 3)) None None
      (Some (Ref1 4)) None ''quadprog'' None True False [] ?st []))) (DenseRef (Ref2 0 2 2))
      = load_matrix ?st (DenseRef (Ref2 0 2 2))"
    using P [THEN conjunct2, THEN conjunct2, THEN conjunct1, rule_format,
        of "DenseRef (Ref2 0 2 2)"]
    by (simp del: load_matrix.simps load.simps)
  moreover have "load (fst (snd (solve_qp_st ?env
      (DenseRef (Ref2 0 2 2)) (Ref1 1) (Some (DenseRef (Ref1 2))) (Some (Ref1 3)) None None
      (Some (Ref1 4)) None ''quadprog'' None True False [] ?st []))) (Ref1 2)
      = load ?st (Ref1 2)"
    using G [THEN conjunct2, THEN conjunct1, rule_format, of "Ref1 2"]
    by (simp del: load_matrix.simps load.simps)
  ultimately show ?thesis
    by (simp add: rows_at_def upt_conv_Cons)
qed

lemma valid_ref_append: "valid_ref st r \<Longrightarrow> valid_ref (st @ ext) r"
  by (cases r) (auto simp: nth_append)

lemma valid_mref_append: "valid_mref st M \<Longrightarrow> valid_mref (st @ ext) M"
  by (cases M) (auto simp: nth_append valid_ref_append)

lemma load_append: "valid_ref st r \<Longrightarrow> load (st @ ext) r = load st r"
  by (cases r) (auto simp: nth_append rows_at_def)

lemma load_matrix_append: "valid_mref st M \<Longrightarrow> load_matrix (st @ ext) M = load_matrix st M"
  by (cases M) (auto simp: nth_append rows_at_def load_append)

lemma rows_of_concat:
  "list_all (\<lambda>r. length r = c) rows \<Longrightarrow> i < length rows \<Longrightarrow>
   take c (drop (i * c) (concat rows)) = rows ! i"
proof (induction rows arbitrary: i)
  case Nil
  then show ?case by simp
next
  case (Cons r rs)
  then show ?case by (cases i) simp_all
qed

lemma rows_at_new:
  "list_all (\<lambda>r. length r = c) rows \<Longrightarrow>
   rows_at (st @ concat rows # ext) (length st) (length rows) c = rows"
  by (auto simp: rows_at_def rows_of_concat intro!: nth_equalityI)

lemma load_new_array:
  "wf_ndarray v \<Longrightarrow> load (snd (new_array v st) @ ext) (fst (new_array v st)) = v"
  by (cases v) (simp_all add: rows_at_new)

lemma load_new_matrix:
  "wf_matrix M \<Longrightarrow> load_matrix (snd (new_matrix M st) @ ext) (fst (new_matrix M st)) = M"
  using load_new_array by (cases M) (simp_all add: case_prod_beta rows_at_new)

lemma length_concat_rows:
  "list_all (\<lambda>r. length r = c) rows \<Longrightarrow> length (concat rows) = length rows * c"
  by (induction rows) simp_all

lemma valid_new_array: "wf_ndarray v \<Longrightarrow> valid_ref (snd (new_array v st)) (fst (new_array v st))"
  by (cases v) (simp_all add: length_concat_rows)

lemma valid_new_matrix:
  "wf_matrix M \<Longrightarrow> valid_mref (snd (new_matrix M st)) (fst (new_matrix M st))"
  using valid_new_array by (cases M) (simp_all add: case_prod_beta length_concat_rows)

lemma new_array_append: "\<exists>buf. snd (new_array v st) = st @ [buf]"
  by (cases v) simp_all

lemma new_matrix_append: "\<exists>buf. snd (new_matrix M st) = st @ [buf]"
  using new_array_append by (cases M) (simp_all add: case_prod_beta)

lemma wf_load: "valid_ref st r \<Longrightarrow> wf_ndarray (load st r)"
proof (cases r)
  case (Ref1 a)
  then show ?thesis by simp
next
  case (Ref2 a n c)
  assume "valid_ref st r"
  with Ref2 have len: "length (st ! a) = n * c" by simp
  have "c \<le> n * c - i * c" if "i < n" for i
  proof -
    have "n * c - i * c = (n - i) * c" by (simp add: diff_mult_distrib)
    moreover have "1 \<le> n - i" using that by simp
    ultimately show ?thesis by (metis mult_le_mono1 nat_mult_1)
  qed
  then show ?thesis using Ref2 len by (simp add: rows_at_def list_all_iff)
qed

lemma wf_load_matrix: "valid_mref st M \<Longrightarrow> wf_matrix (load_matrix st M)"
proof (cases M)
  case (DenseRef r)
  then show "valid_mref st M \<Longrightarrow> ?thesis" by (simp add: wf_load)
next
  case (SparseRef a n c)
  assume "valid_mref st M"
  then have "valid_ref st (Ref2 a n c)" using SparseRef by simp
  from wf_load [OF this] show ?thesis using SparseRef by simp
qed

lemma wf_add_rows: "add_rows c1 r1 c2 r2 = Inr (c, rs) \<Longrightarrow> list_all (\<lambda>r. length r = c) rs"
  by (auto simp: add_rows_def list_all_iff split: option.splits)

lemma wf_np_add: "np_add a b = Inr s \<Longrightarrow> wf_ndarray s"
  by (cases a; cases b) (auto split: sum.splits dest: wf_add_rows)

lemma wf_np_scale: "wf_ndarray s \<Longrightarrow> wf_ndarray (np_scale k s)"
  by (cases s) (simp_all add: list_all_iff)

lemma wf_symmetric_part: "wf_matrix P \<Longrightarrow> symmetric_part P = Inr S \<Longrightarrow> wf_matrix S"
proof (cases P)
  case (Dense a)
  then show "symmetric_part P = Inr S \<Longrightarrow> ?thesis"
    by (auto split: sum.splits dest!: wf_np_add intro: wf_np_scale)
next
  case (Sparse c rows)
  assume "wf_matrix P" "symmetric_part P = Inr S"
  with Sparse show ?thesis
    by (auto simp: list_all_length columns_def split: if_splits)
qed

lemma promote_row_st_load:
  assumes "pred_option (valid_mref st) M"
  shows "pred_option (valid_mref (st @ ext)) (promote_row_st st M)
       \<and> map_option (load_matrix (st @ ext)) (promote_row_st st M)
         = promote_row (map_option (load_matrix st) M)"
proof (cases M)
  case None
  then show ?thesis by simp
next
  case (Some m)
  show ?thesis
  proof (cases m)
    case (DenseRef r)
    with Some assms show ?thesis
      by (cases r) (auto simp: nth_append rows_at_def)
  next
    case (SparseRef a n c)
    with Some assms show ?thesis
      by (auto simp: nth_append rows_at_def)
  qed
qed

lemma load_kwargs_append:
  "list_all (\<lambda>kv. valid_obj st (snd kv)) kw \<Longrightarrow> load_kwargs (st @ ext) kw = load_kwargs st kw"
proof (induction kw)
  case Nil
  then show ?case by (simp add: load_kwargs_def)
next
  case (Cons kv kw)
  then show ?case
    by (cases "snd kv") (auto simp: load_kwargs_def load_append)
qed

lemma load_kwargs_update:
  "load_kwargs st (AList.update k v kw)
   = AList.update k (case v of Val x \<Rightarrow> x | ArrRef r \<Rightarrow> PyArray (load st r)) (load_kwargs st kw)"
  by (induction kw) (auto simp: load_kwargs_def)

lemma load_adapter_kwargs:
  "load_kwargs st (adapter_kwargs_st kw initvals verbose)
   = adapter_kwargs (load_kwargs st kw) (map_option (load st) initvals) verbose"
  by (cases initvals)
     (simp_all add: adapter_kwargs_st_def adapter_kwargs_def load_kwargs_update opt_ref_def
        opt_array_def)

lemma load_opt_append:
  "pred_option (valid_ref st) r \<Longrightarrow> map_option (load (st @ ext)) r = map_option (load st) r"
  by (cases r) (simp_all add: load_append)

lemma new_array_opt_load:
  assumes "\<forall>x. v = Some x \<longrightarrow> wf_ndarray x"
  shows "\<exists>ext. snd (new_array_opt v st) = st @ ext
           \<and> (\<forall>ext'. map_option (load (st @ ext @ ext')) (fst (new_array_opt v st)) = v)"
proof (cases v)
  case None
  then show ?thesis by simp
next
  case (Some x)
  obtain buf where b: "snd (new_array x st) = st @ [buf]"
    using new_array_append by blast
  have "load (st @ [buf] @ ext') (fst (new_array x st)) = x" for ext'
    using load_new_array [of x st ext'] assms Some b by simp
  with Some b show ?thesis by auto
qed

lemma new_matrix_opt_load:
  assumes "\<forall>x. M = Some x \<longrightarrow> wf_matrix x"
  shows "\<exists>ext. snd (new_matrix_opt M st) = st @ ext
           \<and> (\<forall>ext'. map_option (load_matrix (st @ ext @ ext')) (fst (new_matrix_opt M st)) = M)"
proof (cases M)
  case None
  then show ?thesis by simp
next
  case (Some x)
  obtain buf where b: "snd (new_matrix x st) = st @ [buf]"
    using new_matrix_append by blast
  have "load_matrix (st @ [buf] @ ext') (fst (new_matrix x st)) = x" for ext'
    using load_new_matrix [of x st ext'] assms Some b by simp
  with Some b show ?thesis by auto
qed

lemma load_matrix_opt_append:
  "pred_option (valid_mref st) r \<Longrightarrow>
   map_option (load_matrix (st @ ext)) r = map_option (load_matrix st) r"
  by (cases r) (simp_all add: load_matrix_append)

lemma pred_option_valid_ref_append:
  "pred_option (valid_ref st) r \<Longrightarrow> pred_option (valid_ref (st @ ext)) r"
  by (cases r) (simp_all add: valid_ref_append)

lemma pred_option_valid_mref_append:
  "pred_option (valid_mref st) r \<Longrightarrow> pred_option (valid_mref (st @ ext)) r"
  by (cases r) (simp_all add: valid_mref_append)

lemma symmetrize_st_load:
  assumes "valid_mref st P"
    and "(if sym_proj then symmetric_part (load_matrix st P) else Inr (load_matrix st P)) = Inr P1v"
  shows "\<exists>P1 ext1. (if sym_proj then symmetrize_st P st else Inr (P, st)) = Inr (P1, st @ ext1)
           \<and> (\<forall>ext. load_matrix (st @ ext1 @ ext) P1 = P1v)"
proof (cases sym_proj)
  case False
  with assms show ?thesis
    by (intro exI [of _ P] exI [of _ "[]"]) (simp add: load_matrix_append)
next
  case True
  with assms have S: "symmetric_part (load_matrix st P) = Inr P1v" by simp
  have wf: "wf_matrix P1v"
    using wf_symmetric_part [OF wf_load_matrix [OF assms(1)] S] .
  obtain buf where b: "snd (new_matrix P1v st) = st @ [buf]"
    using new_matrix_append by blast
  have "load_matrix (st @ [buf] @ ext) (fst (new_matrix P1v st)) = P1v" for ext
    using load_new_matrix [OF wf, of st ext] b by simp
  with True S b show ?thesis
    by (intro exI [of _ "fst (new_matrix P1v st)"] exI [of _ "[buf]"])
       (simp add: symmetrize_st_def prod_eq_iff)
qed

text \<open>
  The two embeddings of \<open>solve_qp\<close> agree: with helpers and adapters that only read,
  on valid references, the run over the store has the outcome and leaves the backend
  world that \<open>solve_qp\<close> has on the values the references hold.
\<close>

lemma solve_qp_st_refines:
  assumes P: "valid_mref st P" and q: "valid_ref st q"
    and G: "pred_option (valid_mref st) G" and h: "pred_option (valid_ref st) h"
    and A: "pred_option (valid_mref st) A" and b: "pred_option (valid_ref st) b"
    and lb: "pred_option (valid_ref st) lb" and ub: "pred_option (valid_ref st) ub"
    and iv: "pred_option (valid_ref st) initvals"
    and kw: "list_all (\<lambda>kv. valid_obj st (snd kv)) kwargs"
    and cb: "\<forall>G h lb ub Gv hv. concatenate_bounds env G h lb ub = Inr (Gv, hv) \<longrightarrow>
               (\<forall>M. Gv = Some M \<longrightarrow> wf_matrix M) \<and> (\<forall>v. hv = Some v \<longrightarrow> wf_ndarray v)"
  shows "outcome (solve_qp_st (store_env_of env) P q G h A b lb ub solver initvals sym_proj
                    verbose kwargs st w)
       = solve_qp env (load_matrix st P) (load st q) (map_option (load_matrix st) G)
           (map_option (load st) h) (map_option (load_matrix st) A) (map_option (load st) b)
           (map_option (load st) lb) (map_option (load st) ub) solver
           (map_option (load st) initvals) sym_proj verbose (load_kwargs st kwargs) w"
proof (cases "if sym_proj then symmetric_part (load_matrix st P) else Inr (load_matrix st P)")
  case (Inl e)
  then show ?thesis
    by (auto simp: solve_qp_st_def solve_qp_def symmetrize_st_def outcome_def split: if_splits)
next
  case (Inr P1v)
  from symmetrize_st_load [OF P Inr] obtain P1 ext1 where
    s1: "(if sym_proj then symmetrize_st P st else Inr (P, st)) = Inr (P1, st @ ext1)"
    and l1: "\<And>ext. load_matrix (st @ ext1 @ ext) P1 = P1v"
    by blast
  let ?st1 = "st @ ext1"
  let ?A1 = "promote_row_st ?st1 A" and ?G1 = "promote_row_st ?st1 G"
  let ?Av = "promote_row (map_option (load_matrix st) A)"
  let ?Gv = "promote_row (map_option (load_matrix st) G)"
  have A1: "map_option (load_matrix (?st1 @ ext)) ?A1 = ?Av" for ext
    using promote_row_st_load [OF pred_option_valid_mref_append [OF A, of ext1], of ext]
      load_matrix_opt_append [OF A, of ext1] by simp
  have G1: "map_option (load_matrix (?st1 @ ext)) ?G1 = ?Gv" for ext
    using promote_row_st_load [OF pred_option_valid_mref_append [OF G, of ext1], of ext]
      load_matrix_opt_append [OF G, of ext1] by simp
  have vec: "map_option (load (?st1 @ ext)) h = map_option (load st) h"
    "map_option (load (?st1 @ ext)) b = map_option (load st) b"
    "map_option (load (?st1 @ ext)) lb = map_option (load st) lb"
    "map_option (load (?st1 @ ext)) ub = map_option (load st) ub"
    "load (?st1 @ ext) q = load st q"
    "load_kwargs (?st1 @ ext) kwargs = load_kwargs st kwargs" for ext
    using load_opt_append [OF h, of "ext1 @ ext"] load_opt_append [OF b, of "ext1 @ ext"]
      load_opt_append [OF lb, of "ext1 @ ext"] load_opt_append [OF ub, of "ext1 @ ext"]
      load_append [OF q, of "ext1 @ ext"] load_kwargs_append [OF kw, of "ext1 @ ext"]
    by simp_all
  have iv': "map_option (load (?st1 @ ext)) initvals = map_option (load st) initvals" for ext
    using load_opt_append [OF iv, of "ext1 @ ext"] by simp
  have kw': "load_kwargs (?st1 @ ext) (adapter_kwargs_st kwargs initvals verbose)
      = adapter_kwargs (load_kwargs st kwargs) (map_option (load st) initvals) verbose" for ext
    unfolding adapter_kwargs_st_def load_kwargs_update
    using vec(6) [of ext] iv' [of ext]
    by (cases initvals) (simp_all add: adapter_kwargs_def opt_ref_def opt_array_def)
  let ?chk = "check_problem_constraints env ?Gv (map_option (load st) h) ?Av
                (map_option (load st) b)"
  have c: "check_problem_constraints_st (store_env_of env) ?G1 h ?A1 b ?st1 = (?chk, ?st1)"
    using A1 [of "[]"] G1 [of "[]"] vec(1,2) [of "[]"]
    by (simp add: store_env_of_def reading_check_def)
  show ?thesis
  proof (cases ?chk)
    case (Some e)
    with Inr s1 c show ?thesis
      by (simp add: solve_qp_st_def solve_qp_def outcome_def Let_def)
  next
    case None
    let ?cb = "concatenate_bounds env ?Gv (map_option (load st) h) (map_option (load st) lb)
                 (map_option (load st) ub)"
    show ?thesis
    proof (cases ?cb)
      case (Inl e)
      then have "concatenate_bounds_st (store_env_of env) ?G1 h lb ub ?st1 = (Inl e, ?st1)"
        using G1 [of "[]"] vec(1,3,4) [of "[]"]
        by (simp add: store_env_of_def reading_fold_def)
      with Inr s1 c None Inl show ?thesis
        by (simp add: solve_qp_st_def solve_qp_def outcome_def Let_def)
    next
      case (Inr Gh)
      obtain Gv hv where Gh: "Gh = (Gv, hv)" by (cases Gh)
      from cb Inr Gh have wfG: "\<forall>M. Gv = Some M \<longrightarrow> wf_matrix M"
        and wfh: "\<forall>v. hv = Some v \<longrightarrow> wf_ndarray v"
        by blast+
      from new_matrix_opt_load [OF wfG, of ?st1] obtain e2 where
        e2: "snd (new_matrix_opt Gv ?st1) = ?st1 @ e2"
        and lG: "\<And>ext'. map_option (load_matrix (?st1 @ e2 @ ext'))
                   (fst (new_matrix_opt Gv ?st1)) = Gv"
        by blast
      from new_array_opt_load [OF wfh, of "?st1 @ e2"] obtain e3 where
        e3: "snd (new_array_opt hv (?st1 @ e2)) = (?st1 @ e2) @ e3"
        and lh: "\<And>ext'. map_option (load ((?st1 @ e2) @ e3 @ ext'))
                   (fst (new_array_opt hv (?st1 @ e2))) = hv"
        by blast
      let ?G2 = "fst (new_matrix_opt Gv ?st1)" and ?h2 = "fst (new_array_opt hv (?st1 @ e2))"
      let ?st3 = "?st1 @ e2 @ e3"
      have f: "concatenate_bounds_st (store_env_of env) ?G1 h lb ub ?st1
               = (Inr (?G2, ?h2), ?st3)"
        using G1 [of "[]"] vec(1,3,4) [of "[]"] Inr Gh e2 e3
        by (simp add: store_env_of_def reading_fold_def case_prod_beta Let_def)
      let ?kw = "adapter_kwargs_st kwargs initvals verbose"
      let ?kwv = "adapter_kwargs (load_kwargs st kwargs) (map_option (load st) initvals) verbose"
      have call: "outcome (solver_call_st (store_env_of env) solver P1 q ?G2 ?h2 ?A1 b ?kw ?st3 w)
            = solver_call env solver P1v (load st q) Gv hv ?Av (map_option (load st) b) ?kwv w"
        using l1 [of "e2 @ e3"] lG [of e3] lh [of "[]"] A1 [of "e2 @ e3"] vec(2,5) [of "e2 @ e3"]
          kw' [of "e2 @ e3"]
        by (cases "solve_function env solver")
           (simp_all add: solver_call_st_def solver_call_def dict_getitem_def store_env_of_def
              reading_adapter_def outcome_def case_prod_beta)
      obtain r st' w' where
        r: "solver_call_st (store_env_of env) solver P1 q ?G2 ?h2 ?A1 b ?kw ?st3 w = (r, st', w')"
        by (cases "solver_call_st (store_env_of env) solver P1 q ?G2 ?h2 ?A1 b ?kw ?st3 w")
      with call have
        "solver_call env solver P1v (load st q) Gv hv ?Av (map_option (load st) b) ?kwv w = (r, w')"
        by (simp add: outcome_def)
      with \<open>(if sym_proj then symmetric_part (load_matrix st P) else Inr (load_matrix st P))
              = Inr P1v\<close> s1 c None Inr Gh f r
      show ?thesis
        by (cases r) (simp_all add: solve_qp_st_def solve_qp_def outcome_def Let_def)
    qed
  qed
qed

end
